theory Spec2Isabelle
  imports Complex_Main "HOL-Library.AList" "HOL-Library.Sublist"
begin

section \<open>The fetch, backup, verify and restore pipeline of scripts/fetch\_data.py\<close>

text \<open>
  The script keeps a dataset directory \<^verbatim>\<open>data/\<close> with one file per source and the state
  file \<^verbatim>\<open>data-state.json\<close>, and a sibling backup directory \<^verbatim>\<open>data-backup/\<close>. The model
  threads a record of both directories and of the HTTP requests issued so far through
  every function; a function that can raise returns \<open>Inl\<close> of the exception together with
  the state reached when it was raised, since the files written before stay written.

  What the script takes from outside (the network, the clock, and the library functions
  \<^verbatim>\<open>json\<close>, \<^verbatim>\<open>hashlib\<close>, \<^verbatim>\<open>bs4\<close>, \<^verbatim>\<open>urllib.parse\<close>) is a parameter \<open>env\<close> of the model, so every
  theorem holds for whatever they compute. The file system of the model has regular files
  and directories only (no symbolic links, no permissions, no full disk): an operation
  fails exactly where the kind of a path forbids it. Output written with \<^verbatim>\<open>print\<close> is not
  modelled.
\<close>

subsection \<open>Values\<close>

type_synonym bytes = string

text \<open>What \<^verbatim>\<open>json.load\<close> produces: Python's \<^verbatim>\<open>None\<close>, \<^verbatim>\<open>bool\<close>, \<^verbatim>\<open>int\<close>, \<^verbatim>\<open>float\<close>,
  \<^verbatim>\<open>str\<close>, \<^verbatim>\<open>list\<close> and \<^verbatim>\<open>dict\<close> (an association list in insertion order, read with
  \<open>map_of\<close>). A float is a rational, an infinity (\<open>Infinite\<close>, of either sign) or not a
  number.\<close>

datatype pyfloat = Finite rat | Infinite | NaN

datatype json =
    JNull
  | JBool bool
  | JInt int
  | JFloat pyfloat
  | JStr string
  | JArr "json list"
  | JObj "(string \<times> json) list"

text \<open>The exceptions that the script or the library calls it makes can raise. The first five
  carry the text that \<^verbatim>\<open>str(e)\<close> gives; \<open>HTTPError\<close> is the subclass of
  \<^verbatim>\<open>requests.RequestException\<close> that \<^verbatim>\<open>raise_for_status\<close> raises, \<open>RequestException\<close> stands
  for every other one raised by \<^verbatim>\<open>requests.get\<close>, and \<open>JSONDecodeError\<close> and
  \<open>UnicodeDecodeError\<close> are subclasses of \<^verbatim>\<open>ValueError\<close>.\<close>

datatype exc =
    HTTPError string
  | RequestException string
  | JSONDecodeError string
  | ValueError string
  | UnicodeDecodeError string
  | RecursionError
  | KeyError
  | IndexError
  | TypeError
  | AttributeError
  | OverflowError
  | FileNotFoundError
  | FileExistsError
  | IsADirectoryError
  | NotADirectoryError
  | SystemExit int

record request =
  url :: string
  headers :: "(string \<times> string) list"

record response =
  status_code :: nat
  reason :: string
  resp_url :: string
  resp_text :: string
  resp_content :: bytes

datatype http_result = Failed string | Response response

datatype node = File bytes | Dir "(string \<times> node) list"

record sys =
  data_dir :: "node option"
  backup_dir :: "node option"
  http_log :: "request list"

text \<open>The outside world. \<open>http env i rq\<close> is what the \<open>i\<close>-th request of the run receives
  (\<open>Failed m\<close>: \<^verbatim>\<open>requests.get\<close> raises with message \<open>m\<close>); \<open>json_loads\<close> gives \<open>Inl\<close> of the
  message of the decode error on a text that is not JSON. \<open>json_load env b\<close> is what
  \<^verbatim>\<open>json.load\<close> gives on a file opened in text mode that holds the bytes \<open>b\<close>: a value, or
  \<open>Inl\<close> of the exception that reading or parsing raises (\<^verbatim>\<open>UnicodeDecodeError\<close> on bytes that
  are not text, \<^verbatim>\<open>JSONDecodeError\<close> on text that is not JSON, \<^verbatim>\<open>RecursionError\<close> on text nested
  too deeply). \<open>urlparse_path\<close> and \<open>urljoin\<close> give \<open>Inl\<close> of the message of the \<^verbatim>\<open>ValueError\<close>
  that \<^verbatim>\<open>urlparse\<close> and \<^verbatim>\<open>urljoin\<close> raise on a URL they reject (\<^verbatim>\<open>Invalid IPv6 URL\<close> on
  \<^verbatim>\<open>http://[\<close>).\<close>

record env =
  http :: "nat \<Rightarrow> request \<Rightarrow> http_result"
  json_loads :: "string \<Rightarrow> string + json"
  json_load :: "bytes \<Rightarrow> exc + json"
  json_dumps :: "json \<Rightarrow> string"
  md5_hexdigest :: "bytes \<Rightarrow> string"
  soup_a_hrefs :: "string \<Rightarrow> string list"
  urlparse_path :: "string \<Rightarrow> string + string"
  str_lower :: "string \<Rightarrow> string"
  urljoin :: "string \<Rightarrow> string \<Rightarrow> string + string"
  repr_str :: "string \<Rightarrow> string"
  int_of_str :: "string \<Rightarrow> int option"
  now_isoformat :: string

subsection \<open>Constants of the script\<close>

text \<open>\<^verbatim>\<open>DATA_STATE_FILE = os.path.join(DATA_DIR, "data-state.json")\<close>: a path below
  \<^verbatim>\<open>DATA_DIR\<close> is its name there.\<close>

definition DATA_STATE_FILE :: string where
  "DATA_STATE_FILE = ''data-state.json''"

definition DATA_FILES :: "(string \<times> string) list" where
  "DATA_FILES =
     [(''socrata_90th'', ''socrata-90th-percentile.json''),
      (''dsmi'', ''DSMI-Service-Line-Materials-Estimates.xlsx''),
      (''lslr'', ''2024-2025-LSLR-Data.xlsx'')]"

definition SOURCE_NAMES :: "(string \<times> string) list" where
  "SOURCE_NAMES =
     [(''socrata_90th'', ''Socrata 90th Percentile API''),
      (''dsmi'', ''DSMI Service Line Materials''),
      (''lslr'', ''Lead & Copper Rule (LSLR)'')]"

subsection \<open>Python built-ins\<close>

text \<open>\<^verbatim>\<open>str(n)\<close> of an integer.\<close>

fun str_nat :: "nat \<Rightarrow> string" where
  "str_nat n =
     (if n < 10 then [''0123456789'' ! n]
      else str_nat (n div 10) @ [''0123456789'' ! (n mod 10)])"

declare str_nat.simps [simp del]

definition str_int :: "int \<Rightarrow> string" where
  "str_int i = (if i < 0 then CHR ''-'' # str_nat (nat (- i)) else str_nat (nat i))"

text \<open>\<^verbatim>\<open>repr\<close> of a list of strings, as an f-string prints it.\<close>

fun join_comma :: "string list \<Rightarrow> string" where
  "join_comma [] = []"
| "join_comma [x] = x"
| "join_comma (x # y # ys) = x @ '', '' @ join_comma (y # ys)"

definition repr_list :: "env \<Rightarrow> string list \<Rightarrow> string" where
  "repr_list env xs = ''['' @ join_comma (map (repr_str env) xs) @ '']''"

text \<open>Truth value of a decoded JSON value in an \<^verbatim>\<open>if\<close> or an \<^verbatim>\<open>and\<close>.\<close>

fun truthy :: "json \<Rightarrow> bool" where
  "truthy JNull = False"
| "truthy (JBool b) = b"
| "truthy (JInt n) = (n \<noteq> 0)"
| "truthy (JFloat (Finite q)) = (q \<noteq> 0)"
| "truthy (JFloat Infinite) = True"
| "truthy (JFloat NaN) = True"
| "truthy (JStr s) = (s \<noteq> [])"
| "truthy (JArr xs) = (xs \<noteq> [])"
| "truthy (JObj d) = (d \<noteq> [])"

text \<open>\<^verbatim>\<open>x[0]\<close>.\<close>

fun subscript_0 :: "json \<Rightarrow> exc + json" where
  "subscript_0 (JArr []) = Inl IndexError"
| "subscript_0 (JArr (x # xs)) = Inr x"
| "subscript_0 (JStr []) = Inl IndexError"
| "subscript_0 (JStr (c # cs)) = Inr (JStr [c])"
| "subscript_0 (JObj d) = Inl KeyError"
| "subscript_0 _ = Inl TypeError"

text \<open>\<^verbatim>\<open>x[k]\<close> for a string \<open>k\<close>.\<close>

fun subscript_str :: "json \<Rightarrow> string \<Rightarrow> exc + json" where
  "subscript_str (JObj d) k = (case map_of d k of None \<Rightarrow> Inl KeyError | Some v \<Rightarrow> Inr v)"
| "subscript_str _ k = Inl TypeError"

text \<open>\<^verbatim>\<open>x.get(k, default)\<close>: only a \<^verbatim>\<open>dict\<close> has the method.\<close>

fun dict_get :: "json \<Rightarrow> string \<Rightarrow> json \<Rightarrow> exc + json" where
  "dict_get (JObj d) k dflt = (case map_of d k of None \<Rightarrow> Inr dflt | Some v \<Rightarrow> Inr v)"
| "dict_get _ k dflt = Inl AttributeError"

text \<open>\<^verbatim>\<open>int(x)\<close>.\<close>

fun py_int :: "env \<Rightarrow> json \<Rightarrow> exc + int" where
  "py_int env (JInt n) = Inr n"
| "py_int env (JBool b) = Inr (if b then 1 else 0)"
| "py_int env (JFloat (Finite q)) = Inr (if 0 \<le> q then \<lfloor>q\<rfloor> else \<lceil>q\<rceil>)"
| "py_int env (JFloat Infinite) = Inl OverflowError"
| "py_int env (JFloat NaN) = Inl (ValueError ''cannot convert float NaN to integer'')"
| "py_int env (JStr s) =
     (case int_of_str env s of
        None \<Rightarrow> Inl (ValueError (''invalid literal for int() with base 10: '' @ repr_str env s))
      | Some n \<Rightarrow> Inr n)"
| "py_int env _ = Inl TypeError"

text \<open>\<^verbatim>\<open>len(x)\<close>.\<close>

fun py_len :: "json \<Rightarrow> exc + nat" where
  "py_len (JArr xs) = Inr (length xs)"
| "py_len (JObj d) = Inr (length d)"
| "py_len (JStr s) = Inr (length s)"
| "py_len _ = Inl TypeError"

text \<open>\<^verbatim>\<open>v != h\<close> for a string \<open>h\<close>: a value of another type is never equal to it.\<close>

fun ne_str :: "json \<Rightarrow> string \<Rightarrow> bool" where
  "ne_str (JStr s) h = (s \<noteq> h)"
| "ne_str _ h = True"

subsection \<open>Files of the dataset directory\<close>

text \<open>\<^verbatim>\<open>os.path.exists(os.path.join(DATA_DIR, name))\<close>.\<close>

definition data_exists :: "string \<Rightarrow> sys \<Rightarrow> bool" where
  "data_exists name s =
     (case data_dir s of
        Some (Dir es) \<Rightarrow> map_of es name \<noteq> None
      | _ \<Rightarrow> False)"

text \<open>\<^verbatim>\<open>open(os.path.join(DATA_DIR, name), "r")\<close> and reading the whole file.\<close>

definition open_read :: "string \<Rightarrow> sys \<Rightarrow> exc + bytes" where
  "open_read name s =
     (case data_dir s of
        None \<Rightarrow> Inl FileNotFoundError
      | Some (File b) \<Rightarrow> Inl NotADirectoryError
      | Some (Dir es) \<Rightarrow>
          (case map_of es name of
             None \<Rightarrow> Inl FileNotFoundError
           | Some (Dir sub) \<Rightarrow> Inl IsADirectoryError
           | Some (File b) \<Rightarrow> Inr b))"

text \<open>\<^verbatim>\<open>open(os.path.join(DATA_DIR, name), "w")\<close> and writing \<open>b\<close>: the file is created or
  truncated.\<close>

definition open_write :: "string \<Rightarrow> bytes \<Rightarrow> sys \<Rightarrow> (exc + unit) \<times> sys" where
  "open_write name b s =
     (case data_dir s of
        None \<Rightarrow> (Inl FileNotFoundError, s)
      | Some (File b') \<Rightarrow> (Inl NotADirectoryError, s)
      | Some (Dir es) \<Rightarrow>
          (case map_of es name of
             Some (Dir sub) \<Rightarrow> (Inl IsADirectoryError, s)
           | _ \<Rightarrow> (Inr (), s\<lparr>data_dir := Some (Dir (AList.update name (File b) es))\<rparr>)))"

subsection \<open>Hasher and StateStore\<close>

definition get_file_hash :: "env \<Rightarrow> string \<Rightarrow> sys \<Rightarrow> exc + string" where
  "get_file_hash env name s =
     (case open_read name s of
        Inl e \<Rightarrow> Inl e
      | Inr b \<Rightarrow> Inr (md5_hexdigest env b))"

text \<open>The body of the \<^verbatim>\<open>try\<close> statement of \<^verbatim>\<open>load_data_state\<close>: opening the state file in
  text mode and \<^verbatim>\<open>json.load\<close>.\<close>

definition open_and_load :: "env \<Rightarrow> sys \<Rightarrow> exc + json" where
  "open_and_load env s =
     (case open_read DATA_STATE_FILE s of
        Inl e \<Rightarrow> Inl e
      | Inr b \<Rightarrow> json_load env b)"

text \<open>\<^verbatim>\<open>except FileNotFoundError: return {}\<close>\<close>

definition load_data_state :: "env \<Rightarrow> sys \<Rightarrow> exc + json" where
  "load_data_state env s =
     (case open_and_load env s of
        Inl FileNotFoundError \<Rightarrow> Inr (JObj [])
      | Inl e \<Rightarrow> Inl e
      | Inr j \<Rightarrow> Inr j)"

definition save_data_state :: "env \<Rightarrow> json \<Rightarrow> sys \<Rightarrow> (exc + unit) \<times> sys" where
  "save_data_state env state s = open_write DATA_STATE_FILE (json_dumps env state) s"

subsection \<open>BackupManager\<close>

text \<open>\<^verbatim>\<open>shutil.rmtree\<close> of the backup directory raises on a regular file.\<close>

definition rmtree_backup :: "sys \<Rightarrow> (exc + unit) \<times> sys" where
  "rmtree_backup s =
     (case backup_dir s of
        Some (Dir bs) \<Rightarrow> (Inr (), s\<lparr>backup_dir := None\<rparr>)
      | _ \<Rightarrow> (Inl NotADirectoryError, s))"

text \<open>\<^verbatim>\<open>shutil.copytree(DATA_DIR, DATA_BACKUP_DIR)\<close>, the destination being absent.\<close>

definition copytree_data :: "sys \<Rightarrow> (exc + unit) \<times> sys" where
  "copytree_data s =
     (case data_dir s of
        Some (Dir es) \<Rightarrow> (Inr (), s\<lparr>backup_dir := Some (Dir es)\<rparr>)
      | _ \<Rightarrow> (Inl NotADirectoryError, s))"

definition backup_data :: "sys \<Rightarrow> (exc + unit) \<times> sys" where
  "backup_data s =
     (case (if backup_dir s \<noteq> None then rmtree_backup s else (Inr (), s)) of
        (Inl e, s1) \<Rightarrow> (Inl e, s1)
      | (Inr u, s1) \<Rightarrow>
          (if data_dir s1 \<noteq> None then copytree_data s1 else (Inr (), s1)))"

text \<open>\<^verbatim>\<open>shutil.copy2(src, dst)\<close> for a regular file \<open>src\<close> of the backup with contents \<open>b\<close> and
  \<open>dst = os.path.join(DATA_DIR, name)\<close>. Where \<open>dst\<close> is a directory, \<^verbatim>\<open>copy2\<close> copies into
  it, under the base name of \<open>src\<close>.\<close>

definition copy2 :: "string \<Rightarrow> bytes \<Rightarrow> sys \<Rightarrow> (exc + unit) \<times> sys" where
  "copy2 name b s =
     (case data_dir s of
        None \<Rightarrow> (Inl FileNotFoundError, s)
      | Some (File b') \<Rightarrow> (Inl NotADirectoryError, s)
      | Some (Dir es) \<Rightarrow>
          (case map_of es name of
             Some (Dir sub) \<Rightarrow>
               (case map_of sub name of
                  Some (Dir sub') \<Rightarrow> (Inl IsADirectoryError, s)
                | _ \<Rightarrow>
                  (Inr (), s\<lparr>data_dir :=
                     Some (Dir (AList.update name (Dir (AList.update name (File b) sub)) es))\<rparr>))
           | _ \<Rightarrow> (Inr (), s\<lparr>data_dir := Some (Dir (AList.update name (File b) es))\<rparr>)))"

text \<open>The loop of \<^verbatim>\<open>restore_from_backup\<close> over \<^verbatim>\<open>os.listdir(DATA_BACKUP_DIR)\<close>; \<open>bs\<close> are the
  entries of the backup directory.\<close>

fun restore_loop :: "string list \<Rightarrow> (string \<times> node) list \<Rightarrow> sys \<Rightarrow> (exc + unit) \<times> sys" where
  "restore_loop [] bs s = (Inr (), s)"
| "restore_loop (name # names) bs s =
     (case map_of bs name of
        Some (File b) \<Rightarrow>
          (case copy2 name b s of
             (Inl e, s1) \<Rightarrow> (Inl e, s1)
           | (Inr u, s1) \<Rightarrow> restore_loop names bs s1)
      | _ \<Rightarrow> restore_loop names bs s)"

definition restore_from_backup :: "sys \<Rightarrow> (exc + unit) \<times> sys" where
  "restore_from_backup s =
     (case backup_dir s of
        None \<Rightarrow> (Inr (), s)
      | Some (File b) \<Rightarrow> (Inl NotADirectoryError, s)
      | Some (Dir bs) \<Rightarrow> restore_loop (map fst bs) bs s)"

definition clear_backup :: "sys \<Rightarrow> (exc + unit) \<times> sys" where
  "clear_backup s = (if backup_dir s \<noteq> None then rmtree_backup s else (Inr (), s))"

subsection \<open>SourceFetcher: requests\<close>

text \<open>\<^verbatim>\<open>requests.get(url, headers=..., timeout=30)\<close>: the request is issued, and logged, whether
  or not it fails.\<close>

definition requests_get :: "env \<Rightarrow> request \<Rightarrow> sys \<Rightarrow> (exc + response) \<times> sys" where
  "requests_get env rq s =
     (case http env (length (http_log s)) rq of
        Failed m \<Rightarrow> (Inl (RequestException m), s\<lparr>http_log := http_log s @ [rq]\<rparr>)
      | Response r \<Rightarrow> (Inr r, s\<lparr>http_log := http_log s @ [rq]\<rparr>))"

text \<open>\<^verbatim>\<open>Response.raise_for_status()\<close> of the requests library: an \<^verbatim>\<open>HTTPError\<close> for a status
  from 400 to 599.\<close>

definition raise_for_status :: "response \<Rightarrow> exc + unit" where
  "raise_for_status r =
     (if 400 \<le> status_code r \<and> status_code r < 500 then
        Inl (HTTPError (str_nat (status_code r) @ '' Client Error: '' @ reason r
                          @ '' for url: '' @ resp_url r))
      else if 500 \<le> status_code r \<and> status_code r < 600 then
        Inl (HTTPError (str_nat (status_code r) @ '' Server Error: '' @ reason r
                          @ '' for url: '' @ resp_url r))
      else Inr ())"

text \<open>\<^verbatim>\<open>Response.json()\<close>: the decoded body, parsed.\<close>

definition response_json :: "env \<Rightarrow> response \<Rightarrow> exc + json" where
  "response_json env r =
     (case json_loads env (resp_text r) of
        Inl m \<Rightarrow> Inl (JSONDecodeError m)
      | Inr j \<Rightarrow> Inr j)"

subsection \<open>SourceFetcher: the REST strategy\<close>

definition socrata_url :: string where
  "socrata_url = ''https://data.michigan.gov/resource/39ya-9txc.json''"

definition count_url :: string where
  "count_url = socrata_url @ ''?$select=count('' @ ''*)''"

text \<open>\<^verbatim>\<open>int(count_data[0]["count"]) if count_data else 0\<close>\<close>

definition record_count_of :: "env \<Rightarrow> json \<Rightarrow> exc + int" where
  "record_count_of env count_data =
     (if truthy count_data then
        (case subscript_0 count_data of
           Inl e \<Rightarrow> Inl e
         | Inr row \<Rightarrow>
             (case subscript_str row ''count'' of
                Inl e \<Rightarrow> Inl e
              | Inr c \<Rightarrow> py_int env c))
      else Inr 0)"

definition all_url :: "int \<Rightarrow> string" where
  "all_url record_count = socrata_url @ ''?$limit='' @ str_int record_count"

text \<open>The second half of \<^verbatim>\<open>fetch_socrata_api\<close>, from \<^verbatim>\<open>all_url\<close> on.\<close>

definition fetch_all_records :: "env \<Rightarrow> int \<Rightarrow> sys \<Rightarrow> (exc + json) \<times> sys" where
  "fetch_all_records env record_count s =
     (case requests_get env \<lparr>url = all_url record_count, headers = []\<rparr> s of
        (Inl e, s2) \<Rightarrow> (Inl e, s2)
      | (Inr all_resp, s2) \<Rightarrow>
          (case raise_for_status all_resp of
             Inl e \<Rightarrow> (Inl e, s2)
           | Inr u \<Rightarrow> (response_json env all_resp, s2)))"

definition fetch_socrata_api :: "env \<Rightarrow> sys \<Rightarrow> (exc + json) \<times> sys" where
  "fetch_socrata_api env s =
     (case requests_get env \<lparr>url = count_url, headers = []\<rparr> s of
        (Inl e, s1) \<Rightarrow> (Inl e, s1)
      | (Inr count_resp, s1) \<Rightarrow>
          (case raise_for_status count_resp of
             Inl e \<Rightarrow> (Inl e, s1)
           | Inr u \<Rightarrow>
               (case response_json env count_resp of
                  Inl e \<Rightarrow> (Inl e, s1)
                | Inr count_data \<Rightarrow>
                    (case record_count_of env count_data of
                       Inl e \<Rightarrow> (Inl e, s1)
                     | Inr record_count \<Rightarrow> fetch_all_records env record_count s1))))"

subsection \<open>SourceFetcher: the HTML scrape and download strategy\<close>

text \<open>\<^verbatim>\<open>_is_xlsx_href\<close>: \<^verbatim>\<open>urlparse(href).path.lower().endswith(".xlsx")\<close>\<close>

definition is_xlsx_href :: "env \<Rightarrow> string \<Rightarrow> exc + bool" where
  "is_xlsx_href env href =
     (case urlparse_path env href of
        Inl m \<Rightarrow> Inl (ValueError m)
      | Inr path \<Rightarrow> Inr (suffix ''.xlsx'' (str_lower env path)))"

definition user_agent :: "(string \<times> string) list" where
  "user_agent =
     [(''User-Agent'', ''Mozilla/5.0 (compatible; DataMonitor/1.0; +https://planetdetroit.org)'')]"

text \<open>The loop over \<^verbatim>\<open>soup.find_all("a", href=True)\<close>, with \<^verbatim>\<open>xlsx_links\<close> as accumulator:
  it ends at the first link on which \<^verbatim>\<open>_is_xlsx_href\<close> raises.\<close>

fun xlsx_links_loop :: "env \<Rightarrow> string list \<Rightarrow> string list \<Rightarrow> exc + string list" where
  "xlsx_links_loop env [] xlsx_links = Inr xlsx_links"
| "xlsx_links_loop env (href # hrefs) xlsx_links =
     (case is_xlsx_href env href of
        Inl e \<Rightarrow> Inl e
      | Inr b \<Rightarrow> xlsx_links_loop env hrefs (if b then xlsx_links @ [href] else xlsx_links))"

definition xlsx_links_of :: "env \<Rightarrow> response \<Rightarrow> exc + string list" where
  "xlsx_links_of env page_resp = xlsx_links_loop env (soup_a_hrefs env (resp_text page_resp)) []"

text \<open>The bodies of \<^verbatim>\<open>fetch_dsmi_inventories\<close> and \<^verbatim>\<open>fetch_lead_copper_rule\<close> are the same text
  but for the page URL, the name of the page in the two messages, and the target file.\<close>

definition download_xlsx :: "env \<Rightarrow> string \<Rightarrow> string \<Rightarrow> string \<Rightarrow> sys \<Rightarrow> (exc + unit) \<times> sys" where
  "download_xlsx env page_url link filename s =
     (case urljoin env page_url link of
        Inl m \<Rightarrow> (Inl (ValueError m), s)
      | Inr xlsx_url \<Rightarrow>
          (case requests_get env \<lparr>url = xlsx_url, headers = []\<rparr> s of
             (Inl e, s2) \<Rightarrow> (Inl e, s2)
           | (Inr resp, s2) \<Rightarrow>
               (case raise_for_status resp of
                  Inl e \<Rightarrow> (Inl e, s2)
                | Inr u \<Rightarrow> open_write filename (resp_content resp) s2)))"

definition fetch_xlsx :: "env \<Rightarrow> string \<Rightarrow> string \<Rightarrow> string \<Rightarrow> sys \<Rightarrow> (exc + unit) \<times> sys" where
  "fetch_xlsx env page_url page_name filename s =
     (case requests_get env \<lparr>url = page_url, headers = user_agent\<rparr> s of
        (Inl e, s1) \<Rightarrow> (Inl e, s1)
      | (Inr page_resp, s1) \<Rightarrow>
          (case raise_for_status page_resp of
             Inl e \<Rightarrow> (Inl e, s1)
           | Inr u \<Rightarrow>
               (case xlsx_links_of env page_resp of
                  Inl e \<Rightarrow> (Inl e, s1)
                | Inr xlsx_links \<Rightarrow>
                    if xlsx_links = [] then
                      (Inl (ValueError (''No xlsx file link found on '' @ page_name)), s1)
                    else if length xlsx_links > 1 then
                      (Inl (ValueError (''Multiple xlsx links found on '' @ page_name @ '' (''
                          @ str_nat (length xlsx_links) @ ''), skipping fetch: ''
                          @ repr_list env xlsx_links)), s1)
                    else download_xlsx env page_url (hd xlsx_links) filename s1)))"

definition dsmi_page_url :: string where
  "dsmi_page_url = ''https://www.michigan.gov/egle/about/organization/drinking-water-and-environmental-health/community-water-supply/lead-and-copper-rule/dsmi-inventories''"

definition lslr_page_url :: string where
  "lslr_page_url = ''https://www.michigan.gov/egle/about/organization/drinking-water-and-environmental-health/community-water-supply/lead-and-copper-rule/lslr-progress''"

definition fetch_dsmi_inventories :: "env \<Rightarrow> sys \<Rightarrow> (exc + unit) \<times> sys" where
  "fetch_dsmi_inventories env s =
     fetch_xlsx env dsmi_page_url ''DSMI inventories page''
       ''DSMI-Service-Line-Materials-Estimates.xlsx'' s"

definition fetch_lead_copper_rule :: "env \<Rightarrow> sys \<Rightarrow> (exc + unit) \<times> sys" where
  "fetch_lead_copper_rule env s =
     fetch_xlsx env lslr_page_url ''LSLR progress page'' ''2024-2025-LSLR-Data.xlsx'' s"

subsection \<open>ChangeDetector\<close>

text \<open>\<^verbatim>\<open>prev_state.get("sources", {}).get(key, {})\<close>\<close>

definition prev_source_of :: "json \<Rightarrow> string \<Rightarrow> exc + json" where
  "prev_source_of prev_state key =
     (case dict_get prev_state ''sources'' (JObj []) of
        Inl e \<Rightarrow> Inl e
      | Inr sources \<Rightarrow> dict_get sources key (JObj []))"

text \<open>\<^verbatim>\<open>prev_source.get("content_hash") and prev_source["content_hash"] != content_hash\<close>\<close>

definition hash_changed :: "json \<Rightarrow> string \<Rightarrow> exc + bool" where
  "hash_changed prev_source content_hash =
     (case dict_get prev_source ''content_hash'' JNull of
        Inl e \<Rightarrow> Inl e
      | Inr g \<Rightarrow>
          (if truthy g then
             (case subscript_str prev_source ''content_hash'' of
                Inl e \<Rightarrow> Inl e
              | Inr h \<Rightarrow> Inr (ne_str h content_hash))
           else Inr False))"

definition source_name :: "string \<Rightarrow> string" where
  "source_name key = (case map_of SOURCE_NAMES key of None \<Rightarrow> key | Some n \<Rightarrow> n)"

definition change_event :: "string \<Rightarrow> string \<Rightarrow> json" where
  "change_event key filename =
     JObj [(''source'', JStr (source_name key)),
           (''type'', JStr ''Data content changed''),
           (''details'', JStr (''File '' @ filename @ '' has been modified'')),
           (''file'', JStr filename)]"

text \<open>The loop of \<^verbatim>\<open>detect_data_changes\<close> over \<^verbatim>\<open>DATA_FILES.items()\<close>, with
  \<^verbatim>\<open>current_state["sources"]\<close> and \<^verbatim>\<open>changes\<close> as accumulators.\<close>

fun detect_loop ::
  "env \<Rightarrow> sys \<Rightarrow> json \<Rightarrow> (string \<times> string) list \<Rightarrow> (string \<times> json) list \<Rightarrow> json list
     \<Rightarrow> exc + (string \<times> json) list \<times> json list" where
  "detect_loop env s prev_state [] sources changes = Inr (sources, changes)"
| "detect_loop env s prev_state ((key, filename) # rest) sources changes =
     (if \<not> data_exists filename s then
        detect_loop env s prev_state rest
          (AList.update key (JObj [(''exists'', JBool False)]) sources) changes
      else
        (case get_file_hash env filename s of
           Inl e \<Rightarrow> Inl e
         | Inr content_hash \<Rightarrow>
             (case prev_source_of prev_state key of
                Inl e \<Rightarrow> Inl e
              | Inr prev_source \<Rightarrow>
                  (case hash_changed prev_source content_hash of
                     Inl e \<Rightarrow> Inl e
                   | Inr c \<Rightarrow>
                       detect_loop env s prev_state rest
                         (AList.update key
                            (JObj [(''exists'', JBool True),
                                   (''content_hash'', JStr content_hash),
                                   (''file'', JStr filename)]) sources)
                         (if c then changes @ [change_event key filename] else changes)))))"

definition detect_data_changes :: "env \<Rightarrow> sys \<Rightarrow> exc + json \<times> json list" where
  "detect_data_changes env s =
     (case load_data_state env s of
        Inl e \<Rightarrow> Inl e
      | Inr prev_state \<Rightarrow>
          (case detect_loop env s prev_state DATA_FILES [] [] of
             Inl e \<Rightarrow> Inl e
           | Inr (sources, changes) \<Rightarrow>
               Inr (JObj [(''sources'', JObj sources),
                          (''last_check'', JStr (now_isoformat env))], changes)))"

subsection \<open>Orchestrator\<close>

text \<open>\<^verbatim>\<open>os.makedirs(DATA_DIR, exist_ok=True)\<close>\<close>

definition makedirs_data :: "sys \<Rightarrow> (exc + unit) \<times> sys" where
  "makedirs_data s =
     (case data_dir s of
        None \<Rightarrow> (Inr (), s\<lparr>data_dir := Some (Dir [])\<rparr>)
      | Some (Dir es) \<Rightarrow> (Inr (), s)
      | Some (File b) \<Rightarrow> (Inl FileExistsError, s))"

text \<open>The two \<^verbatim>\<open>except\<close> clauses of \<^verbatim>\<open>main\<close>: \<open>Some (str(e))\<close> where the clause catches \<open>e\<close>.
  \<^verbatim>\<open>except (requests.RequestException, json.JSONDecodeError) as e\<close>\<close>

fun catch_api :: "exc \<Rightarrow> string option" where
  "catch_api (HTTPError m) = Some m"
| "catch_api (RequestException m) = Some m"
| "catch_api (JSONDecodeError m) = Some m"
| "catch_api _ = None"

text \<open>\<^verbatim>\<open>except (requests.RequestException, json.JSONDecodeError, ValueError) as e\<close>\<close>

fun catch_scrape :: "exc \<Rightarrow> string option" where
  "catch_scrape (HTTPError m) = Some m"
| "catch_scrape (RequestException m) = Some m"
| "catch_scrape (JSONDecodeError m) = Some m"
| "catch_scrape (ValueError m) = Some m"
| "catch_scrape (UnicodeDecodeError m) = Some m"
| "catch_scrape _ = None"

definition fetch_error :: "string \<Rightarrow> string \<Rightarrow> json" where
  "fetch_error key msg =
     JObj [(''source'', JStr key),
           (''name'', JStr (the (map_of SOURCE_NAMES key))),
           (''error'', JStr msg)]"

text \<open>One \<^verbatim>\<open>try\<close> statement of \<^verbatim>\<open>main\<close>, given the outcome of its body.\<close>

definition try_source ::
  "(exc \<Rightarrow> string option) \<Rightarrow> string \<Rightarrow> json list \<Rightarrow> (exc + unit) \<times> sys \<Rightarrow> (exc + json list) \<times> sys" where
  "try_source catch key fetch_errors r =
     (case r of
        (Inr u, s1) \<Rightarrow> (Inr fetch_errors, s1)
      | (Inl e, s1) \<Rightarrow>
          (case catch e of
             Some msg \<Rightarrow> (Inr (fetch_errors @ [fetch_error key msg]), s1)
           | None \<Rightarrow> (Inl e, s1)))"

text \<open>The body of the first \<^verbatim>\<open>try\<close>: fetch, \<^verbatim>\<open>len(socrata_data)\<close> for the message, write.\<close>

definition fetch_socrata :: "env \<Rightarrow> sys \<Rightarrow> (exc + unit) \<times> sys" where
  "fetch_socrata env s =
     (case fetch_socrata_api env s of
        (Inl e, s1) \<Rightarrow> (Inl e, s1)
      | (Inr socrata_data, s1) \<Rightarrow>
          (case py_len socrata_data of
             Inl e \<Rightarrow> (Inl e, s1)
           | Inr n \<Rightarrow>
               open_write (the (map_of DATA_FILES ''socrata_90th''))
                 (json_dumps env socrata_data) s1))"

text \<open>The three \<^verbatim>\<open>try\<close> statements in sequence; the result is \<^verbatim>\<open>fetch_errors\<close>.\<close>

definition fetch_sources :: "env \<Rightarrow> sys \<Rightarrow> (exc + json list) \<times> sys" where
  "fetch_sources env s =
     (case try_source catch_api ''socrata_90th'' [] (fetch_socrata env s) of
        (Inl e, s1) \<Rightarrow> (Inl e, s1)
      | (Inr errs1, s1) \<Rightarrow>
          (case try_source catch_scrape ''dsmi'' errs1 (fetch_dsmi_inventories env s1) of
             (Inl e, s2) \<Rightarrow> (Inl e, s2)
           | (Inr errs2, s2) \<Rightarrow>
               try_source catch_scrape ''lslr'' errs2 (fetch_lead_copper_rule env s2)))"

text \<open>\<^verbatim>\<open>d[k] = v\<close> on a \<^verbatim>\<open>dict\<close>.\<close>

fun dict_set :: "json \<Rightarrow> string \<Rightarrow> json \<Rightarrow> json" where
  "dict_set (JObj d) k v = JObj (AList.update k v d)"
| "dict_set j k v = j"

text \<open>The local variables of \<^verbatim>\<open>main\<close> when it reaches its last statement.\<close>

record run =
  fetch_errors :: "json list"
  changes :: "json list"
  current_state :: json

text \<open>\<^verbatim>\<open>main\<close> up to its last statement.\<close>

definition main_body :: "env \<Rightarrow> sys \<Rightarrow> (exc + run) \<times> sys" where
  "main_body env s =
     (case makedirs_data s of
        (Inl e, s1) \<Rightarrow> (Inl e, s1)
      | (Inr u, s1) \<Rightarrow>
     (case backup_data s1 of
        (Inl e, s2) \<Rightarrow> (Inl e, s2)
      | (Inr u, s2) \<Rightarrow>
     (case fetch_sources env s2 of
        (Inl e, s3) \<Rightarrow> (Inl e, s3)
      | (Inr errs, s3) \<Rightarrow>
     (case (if errs \<noteq> [] then restore_from_backup s3 else (Inr (), s3)) of
        (Inl e, s4) \<Rightarrow> (Inl e, s4)
      | (Inr u, s4) \<Rightarrow>
     (case detect_data_changes env s4 of
        Inl e \<Rightarrow> (Inl e, s4)
      | Inr (state0, chs) \<Rightarrow>
     (let state1 = dict_set state0 ''changes'' (JArr chs);
          state2 = dict_set state1 ''changes_count'' (JInt (int (length chs)));
          state3 = dict_set state2 ''fetch_success'' (JBool (length errs = 0));
          state4 = dict_set state3 ''fetch_errors'' (JArr errs)
      in
     (case save_data_state env state4 s4 of
        (Inl e, s5) \<Rightarrow> (Inl e, s5)
      | (Inr u, s5) \<Rightarrow>
     (case (if chs \<noteq> [] then (Inr (), s5)
            else if errs = [] then clear_backup s5
            else (Inr (), s5)) of
        (Inl e, s6) \<Rightarrow> (Inl e, s6)
      | (Inr u, s6) \<Rightarrow>
          (Inr \<lparr>fetch_errors = errs, changes = chs, current_state = state4\<rparr>, s6)))))))))"

text \<open>\<^verbatim>\<open>main\<close>: it returns, or raises \<^verbatim>\<open>SystemExit(1)\<close> in its last statement, or is left by
  an exception that nothing catches.\<close>

definition main :: "env \<Rightarrow> sys \<Rightarrow> (exc + unit) \<times> sys" where
  "main env s =
     (case main_body env s of
        (Inl e, s') \<Rightarrow> (Inl e, s')
      | (Inr r, s') \<Rightarrow>
          (if fetch_errors r \<noteq> [] then (Inl (SystemExit 1), s') else (Inr (), s')))"

text \<open>The exit status of the process: that of \<^verbatim>\<open>SystemExit\<close>, and 1 after a traceback.\<close>

fun exit_code :: "exc + unit \<Rightarrow> int" where
  "exit_code (Inr u) = 0"
| "exit_code (Inl (SystemExit n)) = n"
| "exit_code (Inl e) = 1"

subsection \<open>Notions used in the statements\<close>

text \<open>The entry called \<open>n\<close> of a directory, if the directory is there and has one.\<close>

definition entry :: "node option \<Rightarrow> string \<Rightarrow> node option" where
  "entry d n = (case d of Some (Dir es) \<Rightarrow> map_of es n | _ \<Rightarrow> None)"




text \<open>The entries of the final state that \<^verbatim>\<open>main\<close> adds to what the change detector
  returns.\<close>

definition dataset_state :: "(string \<times> json) list \<Rightarrow> string \<Rightarrow> run \<Rightarrow> json" where
  "dataset_state sources now r =
     JObj [(''sources'', JObj sources),
           (''last_check'', JStr now),
           (''changes'', JArr (changes r)),
           (''changes_count'', JInt (int (length (changes r)))),
           (''fetch_success'', JBool (fetch_errors r = [])),
           (''fetch_errors'', JArr (fetch_errors r))]"


text \<open>A status for which \<^verbatim>\<open>raise_for_status\<close> raises: a client or server error.\<close>

definition error_status :: "response \<Rightarrow> bool" where
  "error_status r \<longleftrightarrow> 400 \<le> status_code r \<and> status_code r < 600"






subsection \<open>An environment to evaluate the model in\<close>

text \<open>Stand-ins for the library functions, which agree with them on the few inputs used
  below: a serialiser that writes what \<^verbatim>\<open>json.dump(..., indent=2)\<close> writes for values whose
  strings need no escaping and whose floats are whole numbers, tables for the parsers and
  for MD5, and the URL functions on \<^verbatim>\<open>http://[\<close>, which they reject, and on links that are
  absolute paths of the site. A file that holds the byte \<^verbatim>\<open>0xFF\<close> is not text in UTF-8.\<close>

fun join_with :: "string \<Rightarrow> string list \<Rightarrow> string" where
  "join_with sep [] = []"
| "join_with sep [x] = x"
| "join_with sep (x # y # ys) = x @ sep @ join_with sep (y # ys)"

definition quoted :: "string \<Rightarrow> string" where
  "quoted s = CHR 0x22 # s @ [CHR 0x22]"

fun dumps :: "nat \<Rightarrow> json \<Rightarrow> string" where
  "dumps n JNull = ''null''"
| "dumps n (JBool b) = (if b then ''true'' else ''false'')"
| "dumps n (JInt i) = str_int i"
| "dumps n (JFloat NaN) = ''NaN''"
| "dumps n (JFloat Infinite) = ''Infinity''"
| "dumps n (JFloat (Finite q)) = str_int \<lfloor>q\<rfloor> @ ''.0''"
| "dumps n (JStr s) = quoted s"
| "dumps n (JArr xs) =
     (if xs = [] then ''[]''
      else ''['' @ CHR 0x0A # replicate (n + 2) CHR '' ''
        @ join_with ('','' @ CHR 0x0A # replicate (n + 2) CHR '' '') (map (dumps (n + 2)) xs)
        @ CHR 0x0A # replicate n CHR '' '' @ '']'')"
| "dumps n (JObj d) =
     (if d = [] then ''{}''
      else ''{'' @ CHR 0x0A # replicate (n + 2) CHR '' ''
        @ join_with ('','' @ CHR 0x0A # replicate (n + 2) CHR '' '')
            (map (\<lambda>(k, v). quoted k @ '': '' @ dumps (n + 2) v) d)
        @ CHR 0x0A # replicate n CHR '' '' @ ''}'')"

definition state_text :: string where
  \<open>state_text = ''{"sources": {"dsmi": {"exists": true, "content_hash": "866c9c11566cc1d3ec3d7560b8277480", "file": "DSMI-Service-Line-Materials-Estimates.xlsx"}}}''\<close>

definition state_value :: json where
  "state_value =
     JObj [(''sources'', JObj [(''dsmi'',
        JObj [(''exists'', JBool True),
              (''content_hash'', JStr ''866c9c11566cc1d3ec3d7560b8277480''),
              (''file'', JStr ''DSMI-Service-Line-Materials-Estimates.xlsx'')])])]"

definition loads_table :: "string \<Rightarrow> string + json" where
  \<open>loads_table t =
     (if t = ''{}'' then Inr (JObj [])
      else if t = ''[{}]'' then Inr (JArr [JObj []])
      else if t = ''[{"count":"2"}]'' then Inr (JArr [JObj [(''count'', JStr ''2'')]])
      else if t = ''[{"id":"1"},{"id":"2"}]'' then
        Inr (JArr [JObj [(''id'', JStr ''1'')], JObj [(''id'', JStr ''2'')]])
      else if t = state_text then Inr state_value
      else Inl ''Expecting value: line 1 column 1 (char 0)'')\<close>

definition undecodable_message :: string where
  "undecodable_message =
     CHR 0x27 # ''utf-8'' @ CHR 0x27 # '' codec can'' @ CHR 0x27
       # ''t decode byte 0xff in position 0: invalid start byte''"

definition load_standin :: "bytes \<Rightarrow> exc + json" where
  "load_standin b =
     (if b = [CHR 0xFF] then Inl (UnicodeDecodeError undecodable_message)
      else
        (case loads_table b of
           Inl m \<Rightarrow> Inl (JSONDecodeError m)
         | Inr j \<Rightarrow> Inr j))"

definition urlparse_standin :: "string \<Rightarrow> string + string" where
  "urlparse_standin href =
     (if href = ''http://['' then Inl ''Invalid IPv6 URL''
      else Inr (takeWhile (\<lambda>c. c \<noteq> CHR ''?'' \<and> c \<noteq> CHR ''#'') href))"

definition urljoin_standin :: "string \<Rightarrow> string \<Rightarrow> string + string" where
  "urljoin_standin base href =
     (if href = ''http://['' then Inl ''Invalid IPv6 URL''
      else Inr (''https://www.michigan.gov'' @ href))"

definition md5_table :: "bytes \<Rightarrow> string" where
  "md5_table b =
     (if b = dumps 0 (JArr [JObj [(''id'', JStr ''1'')], JObj [(''id'', JStr ''2'')]]) then
        ''40309d0ab89b1a263744d76684a0d2d9''
      else if b = ''dsmi-v1'' then ''866c9c11566cc1d3ec3d7560b8277480''
      else if b = ''dsmi-v2'' then ''7254d8b1812cd5362362ab200945a111''
      else if b = ''lslr-v1'' then ''75633302934d569d1420abae19819755''
      else ''d41d8cd98f00b204e9800998ecf8427e'')"

definition hrefs_table :: "string \<Rightarrow> string list" where
  \<open>hrefs_table t =
     (if t = ''<a href="/documents/dsmi.xlsx?rev=1">DSMI</a>'' then [''/documents/dsmi.xlsx?rev=1'']
      else if t = ''<a href="/documents/lslr.xlsx">LSLR</a>'' then [''/documents/lslr.xlsx'']
      else if t = ''<a href="/a.xlsx">A</a><a href="/b.XLSX?rev=2">B</a>'' then
        [''/a.xlsx'', ''/b.XLSX?rev=2'']
      else if t = ''<a href="http://[">old</a>'' then [''http://['']
      else [])\<close>

definition ascii_lower :: "string \<Rightarrow> string" where
  "ascii_lower t =
     map (\<lambda>c. case map_of (zip ''ABCDEFGHIJKLMNOPQRSTUVWXYZ'' ''abcdefghijklmnopqrstuvwxyz'') c of
                 Some l \<Rightarrow> l | None \<Rightarrow> c) t"

definition digits_value :: "string \<Rightarrow> int option" where
  "digits_value t =
     (if t \<noteq> [] \<and> list_all (\<lambda>c. c \<in> set ''0123456789'') t then
        Some (foldl (\<lambda>a c. 10 * a + the (map_of (zip ''0123456789'' [0, 1, 2, 3, 4, 5, 6, 7, 8, 9]) c)) 0 t)
      else None)"

definition ok_response :: "string \<Rightarrow> string \<Rightarrow> http_result" where
  "ok_response u body =
     Response \<lparr>status_code = 200, reason = ''OK'', resp_url = u, resp_text = body,
               resp_content = body\<rparr>"

definition site :: "nat \<Rightarrow> request \<Rightarrow> http_result" where
  \<open>site i rq =
     (if url rq = count_url then ok_response (url rq) ''[{"count":"2"}]''
      else if url rq = all_url 2 then ok_response (url rq) ''[{"id":"1"},{"id":"2"}]''
      else if url rq = dsmi_page_url then
        ok_response (url rq) ''<a href="/documents/dsmi.xlsx?rev=1">DSMI</a>''
      else if url rq = ''https://www.michigan.gov/documents/dsmi.xlsx?rev=1'' then
        ok_response (url rq) ''dsmi-v2''
      else if url rq = lslr_page_url then
        ok_response (url rq) ''<a href="/documents/lslr.xlsx">LSLR</a>''
      else if url rq = ''https://www.michigan.gov/documents/lslr.xlsx'' then
        ok_response (url rq) ''lslr-v1''
      else Failed ''Connection refused'')\<close>

definition env0 :: env where
  "env0 =
     \<lparr>http = site,
      json_loads = loads_table,
      json_load = load_standin,
      json_dumps = dumps 0,
      md5_hexdigest = md5_table,
      soup_a_hrefs = hrefs_table,
      urlparse_path = urlparse_standin,
      str_lower = ascii_lower,
      urljoin = urljoin_standin,
      repr_str = (\<lambda>t. CHR 0x27 # t @ [CHR 0x27]),
      int_of_str = digits_value,
      now_isoformat = ''2026-01-15T08:00:00.000000''\<rparr>"

text \<open>The same with a count query answered by \<^verbatim>\<open>[{}]\<close>.\<close>

definition env_nocount :: env where
  \<open>env_nocount =
     env0\<lparr>http := (\<lambda>i rq. if url rq = count_url then ok_response (url rq) ''[{}]''
                          else site i rq)\<rparr>\<close>

text \<open>A dataset directory with the DSMI spreadsheet, a state file that records its
  hash, and a directory of notes; no backup directory.\<close>

definition sys0 :: sys where
  "sys0 =
     \<lparr>data_dir = Some (Dir [(''DSMI-Service-Line-Materials-Estimates.xlsx'', File ''dsmi-v1''),
                             (''data-state.json'', File state_text),
                             (''notes'', Dir [(''readme.txt'', File ''keep'')])]),
      backup_dir = None,
      http_log = []\<rparr>"

text \<open>The same with the download of the LSLR spreadsheet answered by a status 500.\<close>

definition env_500 :: env where
  "env_500 =
     env0\<lparr>http := (\<lambda>i rq.
        if url rq = ''https://www.michigan.gov/documents/lslr.xlsx'' then
          Response \<lparr>status_code = 500, reason = ''Internal Server Error'', resp_url = url rq,
                    resp_text = [], resp_content = []\<rparr>
        else site i rq)\<rparr>"

text \<open>An empty dataset directory; one whose state file is not JSON, one whose state
  file is not text and one whose state path is a directory; a dataset directory with a
  backup beside it; and one where a directory
  of the dataset directory has the name of a regular file of the backup.\<close>

definition sys_fresh :: sys where
  "sys_fresh = \<lparr>data_dir = Some (Dir []), backup_dir = None, http_log = []\<rparr>"

definition sys_garbled :: sys where
  "sys_garbled =
     \<lparr>data_dir = Some (Dir [(''DSMI-Service-Line-Materials-Estimates.xlsx'', File ''dsmi-v1''),
                             (''data-state.json'', File ''not json'')]),
      backup_dir = None,
      http_log = []\<rparr>"

definition sys_undecodable :: sys where
  "sys_undecodable =
     \<lparr>data_dir = Some (Dir [(''data-state.json'', File [CHR 0xFF])]),
      backup_dir = None,
      http_log = []\<rparr>"

definition sys_state_dir :: sys where
  "sys_state_dir =
     \<lparr>data_dir = Some (Dir [(''data-state.json'', Dir [])]),
      backup_dir = None,
      http_log = []\<rparr>"

definition sys_restore :: sys where
  "sys_restore =
     \<lparr>data_dir = Some (Dir [(''report.xlsx'', File ''half-written''),
                             (''archive'', Dir [(''2023.xlsx'', File ''live'')])]),
      backup_dir = Some (Dir [(''report.xlsx'', File ''good''),
                               (''archive'', Dir [(''2023.xlsx'', File ''saved'')])]),
      http_log = []\<rparr>"

definition sys_clash :: sys where
  "sys_clash =
     \<lparr>data_dir = Some (Dir [(''archive'', Dir [])]),
      backup_dir = Some (Dir [(''archive'', File ''abc'')]),
      http_log = []\<rparr>"








subsection \<open>Invariants of the proofs\<close>

text \<open>What every fetcher keeps: the backup directory, the dataset directory being a
  directory, and which of its entries are directories, with their contents.\<close>

definition keeps_dirs :: "sys \<Rightarrow> sys \<Rightarrow> bool" where
  "keeps_dirs s s' \<longleftrightarrow>
     backup_dir s' = backup_dir s
     \<and> ((\<exists>es. data_dir s = Some (Dir es)) \<longrightarrow> (\<exists>es'. data_dir s' = Some (Dir es')))
     \<and> (\<forall>n d. entry (data_dir s') n = Some (Dir d) \<longleftrightarrow> entry (data_dir s) n = Some (Dir d))"

text \<open>No directory among the entries \<open>es\<close> has the name of a regular file among \<open>bs\<close>.\<close>

definition no_clash :: "(string \<times> node) list \<Rightarrow> (string \<times> node) list \<Rightarrow> bool" where
  "no_clash bs es \<longleftrightarrow> (\<forall>n b d. map_of bs n = Some (File b) \<longrightarrow> map_of es n \<noteq> Some (Dir d))"

section \<open>Properties\<close>

subsection \<open>What the file operations and the fetchers leave alone\<close>

lemma keeps_dirs_refl: "keeps_dirs s s"
  by (simp add: keeps_dirs_def)

lemma keeps_dirs_trans: "keeps_dirs s s1 \<Longrightarrow> keeps_dirs s1 s2 \<Longrightarrow> keeps_dirs s s2"
  by (simp add: keeps_dirs_def)

lemma requests_get_sys:
  assumes "requests_get env rq s = (r, s')"
  shows "s' = s\<lparr>http_log := http_log s @ [rq]\<rparr>"
  using assms by (auto simp: requests_get_def split: http_result.splits)

lemma requests_get_keeps: "requests_get env rq s = (r, s') \<Longrightarrow> keeps_dirs s s'"
  by (drule requests_get_sys) (simp add: keeps_dirs_def)

lemma open_write_cases:
  assumes "open_write name b s = (r, s')"
  shows "(r \<noteq> Inr () \<and> s' = s) \<or>
         (r = Inr () \<and> (\<exists>es. data_dir s = Some (Dir es) \<and> (\<forall>d. map_of es name \<noteq> Some (Dir d))
            \<and> s' = s\<lparr>data_dir := Some (Dir (AList.update name (File b) es))\<rparr>))"
  using assms
  by (auto simp: open_write_def split: option.splits node.splits)

lemma open_write_keeps: "open_write name b s = (r, s') \<Longrightarrow> keeps_dirs s s'"
  by (drule open_write_cases) (auto simp: keeps_dirs_def entry_def update_conv' split: if_splits)

lemma open_write_entry:
  assumes "open_write name b s = (Inr u, s')"
  shows "entry (data_dir s') n = (if n = name then Some (File b) else entry (data_dir s) n)"
  using open_write_cases[OF assms] by (auto simp: entry_def update_conv')

lemma open_write_rest:
  assumes "open_write name b s = (r, s')"
  shows "backup_dir s' = backup_dir s \<and> http_log s' = http_log s"
  using open_write_cases[OF assms] by auto

lemma fetch_all_records_keeps: "fetch_all_records env n s = (r, s') \<Longrightarrow> keeps_dirs s s'"
  by (auto simp: fetch_all_records_def split: prod.splits sum.splits dest: requests_get_keeps)

lemma fetch_socrata_api_keeps: "fetch_socrata_api env s = (r, s') \<Longrightarrow> keeps_dirs s s'"
  by (auto simp: fetch_socrata_api_def split: prod.splits sum.splits
      dest: requests_get_keeps fetch_all_records_keeps intro: keeps_dirs_trans)

lemma fetch_socrata_keeps: "fetch_socrata env s = (r, s') \<Longrightarrow> keeps_dirs s s'"
  by (auto simp: fetch_socrata_def split: prod.splits sum.splits
      dest: fetch_socrata_api_keeps open_write_keeps intro: keeps_dirs_trans)

lemma download_xlsx_keeps: "download_xlsx env p l f s = (r, s') \<Longrightarrow> keeps_dirs s s'"
  by (auto simp: download_xlsx_def keeps_dirs_refl split: prod.splits sum.splits
      dest: requests_get_keeps open_write_keeps intro: keeps_dirs_trans)

lemma fetch_xlsx_keeps: "fetch_xlsx env p pn f s = (r, s') \<Longrightarrow> keeps_dirs s s'"
  by (auto simp: fetch_xlsx_def Let_def split: prod.splits sum.splits if_splits
      dest: requests_get_keeps download_xlsx_keeps intro: keeps_dirs_trans)

lemma try_source_sys: "try_source c k errs (r, s1) = (r', s') \<Longrightarrow> s' = s1"
  by (auto simp: try_source_def split: sum.splits option.splits)

lemma fetch_sources_keeps:
  assumes "fetch_sources env s = (r, s')"
  shows "keeps_dirs s s'"
proof -
  obtain r1 s1 where 1: "fetch_socrata env s = (r1, s1)" by (cases "fetch_socrata env s")
  obtain r2 s2 where 2: "fetch_dsmi_inventories env s1 = (r2, s2)"
    by (cases "fetch_dsmi_inventories env s1")
  obtain r3 s3 where 3: "fetch_lead_copper_rule env s2 = (r3, s3)"
    by (cases "fetch_lead_copper_rule env s2")
  have k1: "keeps_dirs s s1" using 1 by (rule fetch_socrata_keeps)
  have k2: "keeps_dirs s1 s2" using 2 unfolding fetch_dsmi_inventories_def by (rule fetch_xlsx_keeps)
  have k3: "keeps_dirs s2 s3" using 3 unfolding fetch_lead_copper_rule_def by (rule fetch_xlsx_keeps)
  have "s' = s1 \<or> s' = s2 \<or> s' = s3"
    using assms 1 2 3
    by (auto simp: fetch_sources_def try_source_def split: prod.splits sum.splits option.splits)
  with k1 k2 k3 show ?thesis by (auto intro: keeps_dirs_trans)
qed

subsection \<open>Restoring from the backup\<close>

lemma copy2_frame:
  assumes "copy2 name b s = (r, s')"
  shows "backup_dir s' = backup_dir s \<and> http_log s' = http_log s
     \<and> (\<forall>n. n \<noteq> name \<longrightarrow> entry (data_dir s') n = entry (data_dir s) n)"
  using assms
  by (auto simp: copy2_def entry_def update_conv' split: option.splits node.splits)

lemma restore_loop_frame:
  assumes "restore_loop names bs s = (r, s')"
  shows "backup_dir s' = backup_dir s \<and> http_log s' = http_log s
     \<and> (\<forall>n. (\<forall>b. map_of bs n \<noteq> Some (File b)) \<longrightarrow> entry (data_dir s') n = entry (data_dir s) n)"
  using assms
proof (induction names arbitrary: s)
  case Nil
  then show ?case by simp
next
  case (Cons name names)
  show ?case
  proof (cases "\<exists>b. map_of bs name = Some (File b)")
    case True
    then obtain b where b: "map_of bs name = Some (File b)" by blast
    obtain r1 s1 where c: "copy2 name b s = (r1, s1)" by (cases "copy2 name b s")
    note f = copy2_frame[OF c]
    show ?thesis
    proof (cases r1)
      case (Inl e)
      with Cons.prems b c have "s' = s1" by simp
      with f b show ?thesis by auto
    next
      case (Inr u)
      with Cons.prems b c have "restore_loop names bs s1 = (r, s')" by simp
      from Cons.IH[OF this] f b show ?thesis by auto
    qed
  next
    case False
    with Cons.prems have "restore_loop names bs s = (r, s')"
      by (auto split: option.splits node.splits)
    from Cons.IH[OF this] show ?thesis .
  qed
qed

lemma copy2_no_clash:
  assumes "data_dir s = Some (Dir es)" "\<forall>d. map_of es name \<noteq> Some (Dir d)"
  shows "copy2 name b s = (Inr (), s\<lparr>data_dir := Some (Dir (AList.update name (File b) es))\<rparr>)"
  using assms by (auto simp: copy2_def split: option.splits node.splits)

lemma restore_loop_ok:
  assumes "data_dir s = Some (Dir es)" "no_clash bs es"
  shows "\<exists>es'. restore_loop names bs s = (Inr (), s\<lparr>data_dir := Some (Dir es')\<rparr>)
     \<and> (\<forall>n. map_of es' n =
           (if n \<in> set names then
              (case map_of bs n of Some (File b) \<Rightarrow> Some (File b) | _ \<Rightarrow> map_of es n)
            else map_of es n))"
  using assms
proof (induction names arbitrary: s es)
  case Nil
  have "s\<lparr>data_dir := Some (Dir es)\<rparr> = s" using Nil by simp
  then show ?case by (intro exI[of _ es]) simp
next
  case (Cons name names)
  show ?case
  proof (cases "\<exists>b. map_of bs name = Some (File b)")
    case True
    then obtain b where b: "map_of bs name = Some (File b)" by blast
    let ?es1 = "AList.update name (File b) es"
    let ?s1 = "s\<lparr>data_dir := Some (Dir ?es1)\<rparr>"
    from Cons.prems b have nd: "\<forall>d. map_of es name \<noteq> Some (Dir d)" by (auto simp: no_clash_def)
    have c: "copy2 name b s = (Inr (), ?s1)" by (rule copy2_no_clash[OF Cons.prems(1) nd])
    have d1: "data_dir ?s1 = Some (Dir ?es1)" by simp
    have nc: "no_clash bs ?es1" using Cons.prems(2) by (auto simp: no_clash_def update_conv')
    from Cons.IH[OF d1 nc] obtain es' where
      r: "restore_loop names bs ?s1 = (Inr (), ?s1\<lparr>data_dir := Some (Dir es')\<rparr>)"
      and m: "\<forall>n. map_of es' n =
           (if n \<in> set names then
              (case map_of bs n of Some (File b) \<Rightarrow> Some (File b) | _ \<Rightarrow> map_of ?es1 n)
            else map_of ?es1 n)" by blast
    have "restore_loop (name # names) bs s = (Inr (), s\<lparr>data_dir := Some (Dir es')\<rparr>)"
      using b c r by simp
    moreover have "\<forall>n. map_of es' n =
           (if n \<in> set (name # names) then
              (case map_of bs n of Some (File b) \<Rightarrow> Some (File b) | _ \<Rightarrow> map_of es n)
            else map_of es n)"
      using m b by (auto simp: update_conv' split: option.splits node.splits)
    ultimately show ?thesis by blast
  next
    case False
    then have e: "restore_loop (name # names) bs s = restore_loop names bs s"
      by (auto split: option.splits node.splits)
    from Cons.IH[OF Cons.prems] obtain es' where
      r: "restore_loop names bs s = (Inr (), s\<lparr>data_dir := Some (Dir es')\<rparr>)"
      and m: "\<forall>n. map_of es' n =
           (if n \<in> set names then
              (case map_of bs n of Some (File b) \<Rightarrow> Some (File b) | _ \<Rightarrow> map_of es n)
            else map_of es n)" by blast
    have "\<forall>n. map_of es' n =
           (if n \<in> set (name # names) then
              (case map_of bs n of Some (File b) \<Rightarrow> Some (File b) | _ \<Rightarrow> map_of es n)
            else map_of es n)"
      using m False by (auto split: option.splits node.splits)
    with e r show ?thesis by auto
  qed
qed

lemma restore_ok:
  assumes "data_dir s = Some (Dir es)" "backup_dir s = Some (Dir bs)" "no_clash bs es"
  shows "\<exists>es'. restore_from_backup s = (Inr (), s\<lparr>data_dir := Some (Dir es')\<rparr>)
     \<and> (\<forall>n. map_of es' n =
           (case map_of bs n of Some (File b) \<Rightarrow> Some (File b) | _ \<Rightarrow> map_of es n))"
proof -
  from restore_loop_ok[OF assms(1,3), of "map fst bs"] obtain es' where
    r: "restore_loop (map fst bs) bs s = (Inr (), s\<lparr>data_dir := Some (Dir es')\<rparr>)"
    and m: "\<forall>n. map_of es' n =
           (if n \<in> set (map fst bs) then
              (case map_of bs n of Some (File b) \<Rightarrow> Some (File b) | _ \<Rightarrow> map_of es n)
            else map_of es n)" by blast
  have "\<forall>n. map_of es' n =
           (case map_of bs n of Some (File b) \<Rightarrow> Some (File b) | _ \<Rightarrow> map_of es n)"
  proof
    fix n
    show "map_of es' n = (case map_of bs n of Some (File b) \<Rightarrow> Some (File b) | _ \<Rightarrow> map_of es n)"
    proof (cases "map_of bs n")
      case None
      with m show ?thesis by (auto split: if_splits)
    next
      case (Some x)
      then have "n \<in> set (map fst bs)" by (metis map_of_eq_None_iff option.distinct(1) set_map)
      with m show ?thesis by simp
    qed
  qed
  with r assms(2) show ?thesis by (auto simp: restore_from_backup_def)
qed

subsection \<open>The steps of a run\<close>

lemma main_body_steps:
  assumes "main_body env s = (Inr r, s')"
  shows "\<exists>s1 s2 s3 s4 s5 state0.
     makedirs_data s = (Inr (), s1)
     \<and> backup_data s1 = (Inr (), s2)
     \<and> fetch_sources env s2 = (Inr (fetch_errors r), s3)
     \<and> (if fetch_errors r \<noteq> [] then restore_from_backup s3 else (Inr (), s3)) = (Inr (), s4)
     \<and> detect_data_changes env s4 = Inr (state0, changes r)
     \<and> current_state r =
         dict_set (dict_set (dict_set (dict_set state0 ''changes'' (JArr (changes r)))
           ''changes_count'' (JInt (int (length (changes r)))))
           ''fetch_success'' (JBool (length (fetch_errors r) = 0)))
           ''fetch_errors'' (JArr (fetch_errors r))
     \<and> save_data_state env (current_state r) s4 = (Inr (), s5)
     \<and> (if changes r \<noteq> [] then (Inr (), s5)
         else if fetch_errors r = [] then clear_backup s5
         else (Inr (), s5)) = (Inr (), s')"
  using assms unfolding main_body_def Let_def
  by (auto split: prod.splits sum.splits if_splits)

lemma makedirs_data_ok:
  assumes "makedirs_data s = (Inr u, s1)"
  shows "\<exists>es. data_dir s1 = Some (Dir es) \<and> (\<forall>n. entry (data_dir s) n = map_of es n)
     \<and> backup_dir s1 = backup_dir s \<and> http_log s1 = http_log s"
  using assms by (auto simp: makedirs_data_def entry_def split: option.splits node.splits)

lemma backup_data_ok:
  assumes "backup_data s1 = (Inr u, s2)" "data_dir s1 = Some (Dir es)"
  shows "s2 = s1\<lparr>backup_dir := Some (Dir es)\<rparr>"
  using assms
  by (auto simp: backup_data_def rmtree_backup_def copytree_data_def
      split: option.splits node.splits if_splits prod.splits sum.splits)

lemma detect_data_changes_shape:
  assumes "detect_data_changes env s = Inr (state0, chs)"
  shows "\<exists>sources. state0 = JObj [(''sources'', JObj sources), (''last_check'', JStr (now_isoformat env))]"
  using assms by (auto simp: detect_data_changes_def split: sum.splits prod.splits)

lemma clear_backup_ok:
  assumes "clear_backup s = (Inr u, s')"
  shows "backup_dir s' = None \<and> data_dir s' = data_dir s \<and> http_log s' = http_log s"
  using assms by (auto simp: clear_backup_def rmtree_backup_def split: if_splits option.splits node.splits)

lemma run_to_restore:
  assumes mk: "makedirs_data s = (Inr (), s1)"
    and bk: "backup_data s1 = (Inr (), s2)"
    and fs: "fetch_sources env s2 = (Inr errs, s3)"
    and rs: "(if errs \<noteq> [] then restore_from_backup s3 else (Inr (), s3)) = (Inr (), s4)"
  shows "\<exists>es es4. (\<forall>n. entry (data_dir s) n = map_of es n)
      \<and> backup_dir s2 = Some (Dir es)
      \<and> data_dir s4 = Some (Dir es4) \<and> backup_dir s4 = Some (Dir es)
      \<and> (errs \<noteq> [] \<longrightarrow> (\<forall>n x. map_of es n = Some x \<longrightarrow> map_of es4 n = Some x))"
proof -
  from makedirs_data_ok[OF mk] obtain es where
    d1: "data_dir s1 = Some (Dir es)" and e1: "\<forall>n. entry (data_dir s) n = map_of es n" by blast
  from backup_data_ok[OF bk d1] have s2: "s2 = s1\<lparr>backup_dir := Some (Dir es)\<rparr>" .
  from fetch_sources_keeps[OF fs] have k: "keeps_dirs s2 s3" .
  from k s2 d1 obtain es3 where d3: "data_dir s3 = Some (Dir es3)" and b3: "backup_dir s3 = Some (Dir es)"
    and dirs: "\<forall>n d. map_of es3 n = Some (Dir d) \<longleftrightarrow> map_of es n = Some (Dir d)"
    by (auto simp: keeps_dirs_def entry_def)
  have "\<exists>es4. data_dir s4 = Some (Dir es4) \<and> backup_dir s4 = Some (Dir es)
      \<and> (errs \<noteq> [] \<longrightarrow> (\<forall>n x. map_of es n = Some x \<longrightarrow> map_of es4 n = Some x))"
  proof (cases "errs = []")
    case True
    with rs d3 b3 show ?thesis by auto
  next
    case False
    have nc: "no_clash es es3" using dirs by (auto simp: no_clash_def)
    from restore_ok[OF d3 b3 nc] obtain es4 where
      r4: "restore_from_backup s3 = (Inr (), s3\<lparr>data_dir := Some (Dir es4)\<rparr>)"
      and m4: "\<forall>n. map_of es4 n = (case map_of es n of Some (File b) \<Rightarrow> Some (File b) | _ \<Rightarrow> map_of es3 n)"
      by blast
    from rs False r4 have s4: "s4 = s3\<lparr>data_dir := Some (Dir es4)\<rparr>" by simp
    have "\<forall>n x. map_of es n = Some x \<longrightarrow> map_of es4 n = Some x"
    proof (intro allI impI)
      fix n x assume a: "map_of es n = Some x"
      show "map_of es4 n = Some x"
      proof (cases x)
        case (File b)
        with a m4 show ?thesis by simp
      next
        case (Dir d)
        with a dirs have "map_of es3 n = Some (Dir d)" by simp
        with a Dir m4 show ?thesis by simp
      qed
    qed
    with s4 b3 show ?thesis by auto
  qed
  with e1 s2 show ?thesis by auto
qed

lemma save_data_state_ok:
  assumes "save_data_state env st s = (Inr (), s')" "data_dir s = Some (Dir es)"
  shows "s' = s\<lparr>data_dir := Some (Dir (AList.update DATA_STATE_FILE (File (json_dumps env st)) es))\<rparr>"
proof -
  from assms(1) have "open_write DATA_STATE_FILE (json_dumps env st) s = (Inr (), s')"
    by (simp add: save_data_state_def)
  from open_write_cases[OF this] assms(2) show ?thesis by auto
qed

lemma last_step_ok:
  assumes "(if chs \<noteq> [] then (Inr (), s5)
         else if errs = [] then clear_backup s5
         else (Inr (), s5)) = (Inr (), s')"
  shows "data_dir s' = data_dir s5
      \<and> backup_dir s' = (if errs = [] \<and> chs = [] then None else backup_dir s5)"
proof (cases "chs = [] \<and> errs = []")
  case True
  with assms have "clear_backup s5 = (Inr (), s')" by simp
  from clear_backup_ok[OF this] True show ?thesis by simp
next
  case False
  with assms have "s' = s5" by (auto split: if_splits)
  with False show ?thesis by auto
qed

text \<open>What a run that reaches the last statement of \<^verbatim>\<open>main\<close> has done.\<close>

lemma main_body_facts:
  assumes "main_body env s = (Inr r, s')"
  shows "\<exists>es es4 sources.
      (\<forall>n. entry (data_dir s) n = map_of es n)
    \<and> (fetch_errors r \<noteq> [] \<longrightarrow> (\<forall>n x. map_of es n = Some x \<longrightarrow> map_of es4 n = Some x))
    \<and> data_dir s' = Some (Dir (AList.update DATA_STATE_FILE (File (json_dumps env (current_state r))) es4))
    \<and> backup_dir s' = (if fetch_errors r = [] \<and> changes r = [] then None else Some (Dir es))
    \<and> current_state r = dataset_state sources (now_isoformat env) r"
proof -
  from main_body_steps[OF assms] obtain s1 s2 s3 s4 s5 state0 where
    mk: "makedirs_data s = (Inr (), s1)"
    and bk: "backup_data s1 = (Inr (), s2)"
    and fs: "fetch_sources env s2 = (Inr (fetch_errors r), s3)"
    and rs: "(if fetch_errors r \<noteq> [] then restore_from_backup s3 else (Inr (), s3)) = (Inr (), s4)"
    and dt: "detect_data_changes env s4 = Inr (state0, changes r)"
    and cs: "current_state r =
         dict_set (dict_set (dict_set (dict_set state0 ''changes'' (JArr (changes r)))
           ''changes_count'' (JInt (int (length (changes r)))))
           ''fetch_success'' (JBool (length (fetch_errors r) = 0)))
           ''fetch_errors'' (JArr (fetch_errors r))"
    and sv: "save_data_state env (current_state r) s4 = (Inr (), s5)"
    and cl: "(if changes r \<noteq> [] then (Inr (), s5)
         else if fetch_errors r = [] then clear_backup s5
         else (Inr (), s5)) = (Inr (), s')"
    by blast
  from run_to_restore[OF mk bk fs rs] obtain es es4 where
    e1: "\<forall>n. entry (data_dir s) n = map_of es n"
    and d4: "data_dir s4 = Some (Dir es4)" and b4: "backup_dir s4 = Some (Dir es)"
    and keep: "fetch_errors r \<noteq> [] \<longrightarrow> (\<forall>n x. map_of es n = Some x \<longrightarrow> map_of es4 n = Some x)"
    by blast
  from detect_data_changes_shape[OF dt] obtain sources where
    st0: "state0 = JObj [(''sources'', JObj sources), (''last_check'', JStr (now_isoformat env))]"
    by blast
  have st: "current_state r = dataset_state sources (now_isoformat env) r"
    unfolding cs st0 dataset_state_def by simp
  note s5 = save_data_state_ok[OF sv d4]
  from last_step_ok[OF cl] s5 b4
  have "data_dir s' = Some (Dir (AList.update DATA_STATE_FILE (File (json_dumps env (current_state r))) es4))
      \<and> backup_dir s' = (if fetch_errors r = [] \<and> changes r = [] then None else Some (Dir es))"
    by simp
  with e1 keep st show ?thesis by blast
qed

subsection \<open>Runs left by an exception\<close>

lemma restore_keeps_backup:
  assumes "restore_from_backup s = (r, s')"
  shows "backup_dir s' = backup_dir s"
proof (cases "backup_dir s")
  case None
  with assms show ?thesis by (simp add: restore_from_backup_def)
next
  case (Some bd)
  show ?thesis
  proof (cases bd)
    case (File b)
    with Some assms show ?thesis by (simp add: restore_from_backup_def)
  next
    case (Dir bs)
    with Some assms have "restore_loop (map fst bs) bs s = (r, s')"
      by (simp add: restore_from_backup_def)
    from restore_loop_frame[OF this] show ?thesis by simp
  qed
qed

lemma clear_backup_failed:
  assumes "clear_backup s = (Inl e, s')"
  shows "s' = s \<and> (\<exists>b. backup_dir s = Some (File b))"
  using assms
  by (auto simp: clear_backup_def rmtree_backup_def split: if_splits option.splits node.splits)

lemma main_body_aborted_backup:
  assumes mk: "makedirs_data s = (Inr (), s1)"
    and bk: "backup_data s1 = (Inr (), s2)"
    and mb: "main_body env s = (Inl e, s')"
  shows "backup_dir s' = backup_dir s2"
proof -
  obtain r3 s3 where fs: "fetch_sources env s2 = (r3, s3)" by (cases "fetch_sources env s2")
  from fetch_sources_keeps[OF fs] have b3: "backup_dir s3 = backup_dir s2"
    by (simp add: keeps_dirs_def)
  show ?thesis
  proof (cases r3)
    case (Inl e3)
    with mk bk fs mb have "s' = s3" by (simp add: main_body_def)
    with b3 show ?thesis by simp
  next
    case (Inr errs)
    obtain r4 s4 where rs: "(if errs \<noteq> [] then restore_from_backup s3 else (Inr (), s3)) = (r4, s4)"
      by (cases "if errs \<noteq> [] then restore_from_backup s3 else (Inr (), s3)")
    then have b4: "backup_dir s4 = backup_dir s2"
      using b3 by (auto split: if_splits dest: restore_keeps_backup)
    show ?thesis
    proof (cases r4)
      case (Inl e4)
      with mk bk fs Inr rs mb have "s' = s4" by (simp add: main_body_def)
      with b4 show ?thesis by simp
    next
      case r4: (Inr u4)
      show ?thesis
      proof (cases "detect_data_changes env s4")
        case (Inl e5)
        with mk bk fs Inr rs r4 mb have "s' = s4" by (simp add: main_body_def)
        with b4 show ?thesis by simp
      next
        case d: (Inr res)
        obtain state0 chs where res: "res = (state0, chs)" by (cases res)
        define st where "st = dict_set (dict_set (dict_set (dict_set state0 ''changes'' (JArr chs))
           ''changes_count'' (JInt (int (length chs))))
           ''fetch_success'' (JBool (length errs = 0)))
           ''fetch_errors'' (JArr errs)"
        obtain r5 s5 where sv: "save_data_state env st s4 = (r5, s5)"
          by (cases "save_data_state env st s4")
        then have b5: "backup_dir s5 = backup_dir s2"
          using b4 by (auto simp: save_data_state_def dest: open_write_rest)
        show ?thesis
        proof (cases r5)
          case (Inl e6)
          with mk bk fs Inr rs r4 d res sv mb have "s' = s5"
            by (simp add: main_body_def Let_def st_def)
          with b5 show ?thesis by simp
        next
          case r5: (Inr u5)
          obtain r6 s6 where cl: "(if chs \<noteq> [] then (Inr (), s5)
            else if errs = [] then clear_backup s5
            else (Inr (), s5)) = (r6, s6)"
            by (cases "if chs \<noteq> [] then (Inr (), s5)
              else if errs = [] then clear_backup s5 else (Inr (), s5)")
          have "main_body env s =
             (case r6 of Inl e \<Rightarrow> (Inl e, s6)
              | Inr u \<Rightarrow> (Inr \<lparr>fetch_errors = errs, changes = chs, current_state = st\<rparr>, s6))"
            unfolding main_body_def Let_def st_def
            using mk bk fs Inr rs r4 d res sv[unfolded st_def] r5 cl
            by (simp split: sum.splits)
          with mb have "r6 = Inl e \<and> s6 = s'" by (auto split: sum.splits)
          with cl have "clear_backup s5 = (Inl e, s')" by (auto split: if_splits)
          from clear_backup_failed[OF this] b5 show ?thesis by simp
        qed
      qed
    qed
  qed
qed

lemma main_snd: "snd (main env s) = snd (main_body env s)"
  by (simp add: main_def split: prod.splits sum.splits)

subsection \<open>Requests and responses\<close>

lemma raise_for_status_iff:
  "(\<exists>m. raise_for_status r = Inl (HTTPError m)) \<longleftrightarrow> error_status r"
  "raise_for_status r = Inr () \<longleftrightarrow> \<not> error_status r"
  by (auto simp: raise_for_status_def error_status_def)











subsection \<open>The loop of the change detector\<close>







subsection \<open>StateStore: loading\<close>

text \<open>C7, as amended. Loading the previous state gives the empty state when the state file
  is missing (there is no dataset directory, or no \<^verbatim>\<open>data-state.json\<close> in it): only
  \<^verbatim>\<open>FileNotFoundError\<close> is caught. A state file that is there is read and parsed, and
  whatever reading or parsing it raises (\<^verbatim>\<open>UnicodeDecodeError\<close> on bytes that are not text,
  \<^verbatim>\<open>JSONDecodeError\<close> on text that is not JSON) is raised to the caller; a state path that
  is a directory raises \<^verbatim>\<open>IsADirectoryError\<close>.\<close>

theorem load_data_state_missing_or_present:
  "((data_dir s = None \<or> (\<exists>es. data_dir s = Some (Dir es) \<and> map_of es DATA_STATE_FILE = None))
       \<longrightarrow> load_data_state env s = Inr (JObj []))
   \<and> (\<forall>es b. data_dir s = Some (Dir es) \<and> map_of es DATA_STATE_FILE = Some (File b)
         \<and> json_load env b \<noteq> Inl FileNotFoundError \<longrightarrow>
         load_data_state env s = json_load env b)
   \<and> (\<forall>es sub. data_dir s = Some (Dir es) \<and> map_of es DATA_STATE_FILE = Some (Dir sub) \<longrightarrow>
         load_data_state env s = Inl IsADirectoryError)"
  by (auto simp: load_data_state_def open_and_load_def open_read_def
      split: sum.splits exc.splits option.splits node.splits)

text \<open>The theorem at an empty dataset directory, at one with a state file, at one
  whose state file is the byte \<^verbatim>\<open>0xFF\<close>, and at one whose state path is a directory.\<close>

theorem load_data_state_missing_witness:
  "load_data_state env0 sys_fresh = Inr (JObj [])
   \<and> load_data_state env0 sys0 = Inr state_value
   \<and> load_data_state env0 sys_undecodable = Inl (UnicodeDecodeError undecodable_message)
   \<and> load_data_state env0 sys_state_dir = Inl IsADirectoryError"
proof -
  have 1: "data_dir sys_fresh = Some (Dir []) \<and> map_of [] DATA_STATE_FILE = (None :: node option)"
    by (simp add: sys_fresh_def)
  have 2: "data_dir sys0 = Some (Dir [(''DSMI-Service-Line-Materials-Estimates.xlsx'', File ''dsmi-v1''),
                             (''data-state.json'', File state_text),
                             (''notes'', Dir [(''readme.txt'', File ''keep'')])])
       \<and> map_of [(''DSMI-Service-Line-Materials-Estimates.xlsx'', File ''dsmi-v1''),
                             (''data-state.json'', File state_text),
                             (''notes'', Dir [(''readme.txt'', File ''keep'')])] DATA_STATE_FILE = Some (File state_text)"
    by (simp add: sys0_def DATA_STATE_FILE_def)
  have 3: "json_load env0 state_text = Inr state_value" by code_simp
  have 4: "data_dir sys_undecodable = Some (Dir [(''data-state.json'', File [CHR 0xFF])])
       \<and> map_of [(''data-state.json'', File [CHR 0xFF])] DATA_STATE_FILE = Some (File [CHR 0xFF])"
    by (simp add: sys_undecodable_def DATA_STATE_FILE_def)
  have 5: "json_load env0 [CHR 0xFF] = Inl (UnicodeDecodeError undecodable_message)" by code_simp
  from load_data_state_missing_or_present[of sys_fresh env0] 1
  have a: "load_data_state env0 sys_fresh = Inr (JObj [])" by blast
  from load_data_state_missing_or_present[of sys0 env0] 2 3
  have b: "load_data_state env0 sys0 = Inr state_value" by auto
  from load_data_state_missing_or_present[of sys_undecodable env0] 4 5
  have c: "load_data_state env0 sys_undecodable = Inl (UnicodeDecodeError undecodable_message)"
    by auto
  have 6: "data_dir sys_state_dir = Some (Dir [(''data-state.json'', Dir [])])
       \<and> map_of [(''data-state.json'', Dir [])] DATA_STATE_FILE = Some (Dir [])"
    by (simp add: sys_state_dir_def DATA_STATE_FILE_def)
  from load_data_state_missing_or_present[of sys_state_dir env0] 6
  have d: "load_data_state env0 sys_state_dir = Inl IsADirectoryError" by blast
  from a b c d show ?thesis by blast
qed

text \<open>C7 as stated fails: on a state file that holds \<^verbatim>\<open>not json\<close>, loading raises the
  decode error instead of returning the empty state.\<close>

theorem load_data_state_garbled_raises:
  "open_read DATA_STATE_FILE sys_garbled = Inr ''not json''
   \<and> json_load env0 ''not json''
       = Inl (JSONDecodeError ''Expecting value: line 1 column 1 (char 0)'')
   \<and> load_data_state env0 sys_garbled
       = Inl (JSONDecodeError ''Expecting value: line 1 column 1 (char 0)'')"
  by code_simp

subsection \<open>BackupManager: restoring\<close>

text \<open>C10, as amended. \<^verbatim>\<open>restore_from_backup\<close> leaves the backup as it is and copies only its
  top-level regular files: where the backup has a directory, or nothing, under a name, the
  entry of that name in the dataset directory is left as it is. Where moreover no directory
  of the dataset directory has the name of a regular file of the backup, every entry of the
  dataset directory is afterwards the regular file of the backup of that name, if there is
  one, and what it was otherwise: nothing but top-level files has changed.\<close>

theorem restore_from_backup_files_only:
  assumes "restore_from_backup s = (r, s')"
  shows "backup_dir s' = backup_dir s
    \<and> (\<forall>n. (\<forall>b. entry (backup_dir s) n \<noteq> Some (File b)) \<longrightarrow>
          entry (data_dir s') n = entry (data_dir s) n)
    \<and> ((\<exists>es. data_dir s = Some (Dir es)) \<and>
        (\<forall>n b d. entry (backup_dir s) n = Some (File b) \<longrightarrow> entry (data_dir s) n \<noteq> Some (Dir d)) \<longrightarrow>
          (\<forall>n. entry (data_dir s') n =
             (case entry (backup_dir s) n of
                Some (File b) \<Rightarrow> Some (File b)
              | _ \<Rightarrow> entry (data_dir s) n)))"
proof (cases "backup_dir s")
  case None
  with assms show ?thesis by (auto simp: restore_from_backup_def entry_def)
next
  case (Some bd)
  show ?thesis
  proof (cases bd)
    case (File b)
    with Some assms show ?thesis by (auto simp: restore_from_backup_def entry_def)
  next
    case (Dir bs)
    with Some assms have l: "restore_loop (map fst bs) bs s = (r, s')"
      by (simp add: restore_from_backup_def)
    from restore_loop_frame[OF l] Some Dir
    have 1: "backup_dir s' = backup_dir s"
      and 2: "\<forall>n. (\<forall>b. entry (backup_dir s) n \<noteq> Some (File b)) \<longrightarrow>
          entry (data_dir s') n = entry (data_dir s) n"
      by (auto simp: entry_def)
    have 3: "(\<exists>es. data_dir s = Some (Dir es)) \<and>
        (\<forall>n b d. entry (backup_dir s) n = Some (File b) \<longrightarrow> entry (data_dir s) n \<noteq> Some (Dir d)) \<longrightarrow>
          (\<forall>n. entry (data_dir s') n =
             (case entry (backup_dir s) n of
                Some (File b) \<Rightarrow> Some (File b)
              | _ \<Rightarrow> entry (data_dir s) n))"
    proof (intro impI, elim conjE exE)
      fix es assume d: "data_dir s = Some (Dir es)"
        and nc: "\<forall>n b d. entry (backup_dir s) n = Some (File b) \<longrightarrow> entry (data_dir s) n \<noteq> Some (Dir d)"
      from nc d Some Dir have "no_clash bs es" by (simp add: no_clash_def entry_def)
      from restore_ok[OF d _ this] Some Dir obtain es' where
        r: "restore_from_backup s = (Inr (), s\<lparr>data_dir := Some (Dir es')\<rparr>)"
        and m: "\<forall>n. map_of es' n =
           (case map_of bs n of Some (File b) \<Rightarrow> Some (File b) | _ \<Rightarrow> map_of es n)"
        by auto
      from r assms have "data_dir s' = Some (Dir es')" by auto
      with m d Some Dir show "\<forall>n. entry (data_dir s') n =
             (case entry (backup_dir s) n of
                Some (File b) \<Rightarrow> Some (File b)
              | _ \<Rightarrow> entry (data_dir s) n)"
        by (auto simp: entry_def split: option.splits node.splits)
    qed
    from 1 2 3 show ?thesis by blast
  qed
qed

text \<open>The theorem at a dataset directory with a file to restore and a directory that
  the backup also has: the file is restored, the directory keeps its live contents.\<close>

theorem restore_from_backup_files_only_witness:
  "restore_from_backup sys_restore =
     (Inr (), sys_restore\<lparr>data_dir := Some (Dir [(''report.xlsx'', File ''good''),
                             (''archive'', Dir [(''2023.xlsx'', File ''live'')])])\<rparr>)
   \<and> entry (data_dir (snd (restore_from_backup sys_restore))) ''archive''
       = Some (Dir [(''2023.xlsx'', File ''live'')])
   \<and> entry (data_dir (snd (restore_from_backup sys_restore))) ''report.xlsx''
       = Some (File ''good'')"
proof -
  have h: "restore_from_backup sys_restore =
     (Inr (), sys_restore\<lparr>data_dir := Some (Dir [(''report.xlsx'', File ''good''),
                             (''archive'', Dir [(''2023.xlsx'', File ''live'')])])\<rparr>)"
    by code_simp
  have p: "(\<exists>es. data_dir sys_restore = Some (Dir es)) \<and>
        (\<forall>n b d. entry (backup_dir sys_restore) n = Some (File b) \<longrightarrow>
             entry (data_dir sys_restore) n \<noteq> Some (Dir d))"
    by (auto simp: sys_restore_def entry_def split: if_splits)
  from restore_from_backup_files_only[OF h] p
  have "\<forall>n. entry (data_dir (sys_restore\<lparr>data_dir := Some (Dir [(''report.xlsx'', File ''good''),
                             (''archive'', Dir [(''2023.xlsx'', File ''live'')])])\<rparr>)) n =
             (case entry (backup_dir sys_restore) n of
                Some (File b) \<Rightarrow> Some (File b)
              | _ \<Rightarrow> entry (data_dir sys_restore) n)"
    by blast
  then have "entry (data_dir (snd (restore_from_backup sys_restore))) ''archive''
       = (case entry (backup_dir sys_restore) ''archive'' of
                Some (File b) \<Rightarrow> Some (File b)
              | _ \<Rightarrow> entry (data_dir sys_restore) ''archive'')"
    and "entry (data_dir (snd (restore_from_backup sys_restore))) ''report.xlsx''
       = (case entry (backup_dir sys_restore) ''report.xlsx'' of
                Some (File b) \<Rightarrow> Some (File b)
              | _ \<Rightarrow> entry (data_dir sys_restore) ''report.xlsx'')"
    unfolding h by simp_all
  then show ?thesis using h by (simp add: sys_restore_def entry_def)
qed

text \<open>C10 as stated fails: where \<^verbatim>\<open>archive\<close> is a directory of the dataset directory and a
  regular file of the backup, \<^verbatim>\<open>shutil.copy2\<close> copies the file into the directory, so the
  restore changes a directory of the dataset directory.\<close>

theorem restore_from_backup_into_directory:
  "entry (backup_dir sys_clash) ''archive'' = Some (File ''abc'')
   \<and> entry (data_dir sys_clash) ''archive'' = Some (Dir [])
   \<and> restore_from_backup sys_clash =
       (Inr (), sys_clash\<lparr>data_dir := Some (Dir [(''archive'', Dir [(''archive'', File ''abc'')])])\<rparr>)"
  by code_simp

subsection \<open>Orchestrator: rollback\<close>




subsection \<open>Orchestrator: the state file, the exit status and the backup\<close>

text \<open>C9, as amended. The state file is an entry of the dataset directory, so the backup taken at the
  start of a run holds the state file as the previous run left it, and a restore after a
  failed fetch puts that copy back in the dataset directory. The new state is saved after
  the restore: in every run that reaches the end of \<^verbatim>\<open>main\<close> (that no exception
  leaves), the state file is then the serialised state of the current run.\<close>

theorem state_file_is_current_run:
  assumes "main_body env s = (Inr r, s')"
  shows "\<exists>s1 s2 s3 s4.
      makedirs_data s = (Inr (), s1) \<and> backup_data s1 = (Inr (), s2)
    \<and> entry (backup_dir s2) DATA_STATE_FILE = entry (data_dir s) DATA_STATE_FILE
    \<and> fetch_sources env s2 = (Inr (fetch_errors r), s3)
    \<and> (if fetch_errors r \<noteq> [] then restore_from_backup s3 else (Inr (), s3)) = (Inr (), s4)
    \<and> (fetch_errors r \<noteq> [] \<longrightarrow>
         (\<forall>x. entry (data_dir s) DATA_STATE_FILE = Some x
                \<longrightarrow> entry (data_dir s4) DATA_STATE_FILE = Some x))
    \<and> entry (data_dir s') DATA_STATE_FILE = Some (File (json_dumps env (current_state r)))"
proof -
  from main_body_steps[OF assms] obtain s1 s2 s3 s4 where
    mk: "makedirs_data s = (Inr (), s1)"
    and bk: "backup_data s1 = (Inr (), s2)"
    and fs: "fetch_sources env s2 = (Inr (fetch_errors r), s3)"
    and rs: "(if fetch_errors r \<noteq> [] then restore_from_backup s3 else (Inr (), s3)) = (Inr (), s4)"
    by blast
  from run_to_restore[OF mk bk fs rs] obtain es es4 where
    e1: "\<forall>n. entry (data_dir s) n = map_of es n"
    and b2: "backup_dir s2 = Some (Dir es)"
    and d4: "data_dir s4 = Some (Dir es4)"
    and keep: "fetch_errors r \<noteq> [] \<longrightarrow> (\<forall>n x. map_of es n = Some x \<longrightarrow> map_of es4 n = Some x)"
    by blast
  have 1: "entry (backup_dir s2) DATA_STATE_FILE = entry (data_dir s) DATA_STATE_FILE"
    using e1 b2 by (simp add: entry_def)
  have 2: "fetch_errors r \<noteq> [] \<longrightarrow>
         (\<forall>x. entry (data_dir s) DATA_STATE_FILE = Some x
                \<longrightarrow> entry (data_dir s4) DATA_STATE_FILE = Some x)"
    using e1 keep d4 by (simp add: entry_def)
  from main_body_facts[OF assms] obtain es5 where
    "data_dir s' = Some (Dir (AList.update DATA_STATE_FILE
        (File (json_dumps env (current_state r))) es5))"
    by blast
  then have 3: "entry (data_dir s') DATA_STATE_FILE = Some (File (json_dumps env (current_state r)))"
    by (simp add: entry_def update_conv')
  from mk bk fs rs 1 2 3 show ?thesis by blast
qed

text \<open>The theorem at the run with a failed download.\<close>

theorem state_file_is_current_run_witness:
  "\<not> isl (fst (main_body env_500 sys0))
   \<and> entry (data_dir (snd (main_body env_500 sys0))) DATA_STATE_FILE
       = Some (File (json_dumps env_500 (current_state (projr (fst (main_body env_500 sys0))))))"
proof -
  define r where "r = projr (fst (main_body env_500 sys0))"
  define s' where "s' = snd (main_body env_500 sys0)"
  have n: "\<not> isl (fst (main_body env_500 sys0))" by code_simp
  then have mb: "main_body env_500 sys0 = (Inr r, s')"
    unfolding r_def s'_def by (metis prod.collapse sum.collapse(2))
  from state_file_is_current_run[OF mb]
  have "entry (data_dir s') DATA_STATE_FILE = Some (File (json_dumps env_500 (current_state r)))"
    by blast
  with n show ?thesis unfolding r_def s'_def by simp
qed

text \<open>C9 as stated fails: in a run where a download fails and the state file is not
  JSON, the DSMI spreadsheet is fetched and then restored, after which loading the previous
  state raises the decode error. The run ends there, and the state file is the restored
  one of before the run.\<close>

theorem aborted_run_keeps_restored_state_file:
  "fst (main env_500 sys_garbled) = Inl (JSONDecodeError ''Expecting value: line 1 column 1 (char 0)'')
   \<and> entry (data_dir (snd (fetch_sources env_500 (sys_garbled\<lparr>backup_dir := data_dir sys_garbled\<rparr>))))
        ''DSMI-Service-Line-Materials-Estimates.xlsx'' = Some (File ''dsmi-v2'')
   \<and> entry (data_dir (snd (main env_500 sys_garbled)))
        ''DSMI-Service-Line-Materials-Estimates.xlsx'' = Some (File ''dsmi-v1'')
   \<and> entry (data_dir sys_garbled) DATA_STATE_FILE = Some (File ''not json'')
   \<and> entry (data_dir (snd (main env_500 sys_garbled))) DATA_STATE_FILE = Some (File ''not json'')"
  by code_simp

text \<open>C4, as amended. Every run that reaches the end of \<^verbatim>\<open>main\<close> has saved a state with the entries
  \<^verbatim>\<open>sources\<close>, \<^verbatim>\<open>last_check\<close>, \<^verbatim>\<open>changes\<close>, \<^verbatim>\<open>changes_count\<close>, \<^verbatim>\<open>fetch_success\<close> and \<^verbatim>\<open>fetch_errors\<close>,
  where \<^verbatim>\<open>changes_count\<close> is the length of \<^verbatim>\<open>changes\<close> and \<^verbatim>\<open>fetch_success\<close> is true exactly
  when \<^verbatim>\<open>fetch_errors\<close> is empty; the state file holds it when the process exits, with
  status 0 when no fetch failed and with status 1 when one did, whatever the changes.\<close>

theorem state_persisted_and_exit_code:
  assumes "main_body env s = (Inr r, s')"
  shows "(\<exists>sources. current_state r = dataset_state sources (now_isoformat env) r)
    \<and> entry (data_dir s') DATA_STATE_FILE = Some (File (json_dumps env (current_state r)))
    \<and> main env s = (if fetch_errors r = [] then Inr () else Inl (SystemExit 1), s')
    \<and> exit_code (fst (main env s)) = (if fetch_errors r = [] then 0 else 1)"
proof -
  from main_body_facts[OF assms] obtain es4 sources where
    d: "data_dir s' = Some (Dir (AList.update DATA_STATE_FILE
        (File (json_dumps env (current_state r))) es4))"
    and c: "current_state r = dataset_state sources (now_isoformat env) r"
    by blast
  from d have 2: "entry (data_dir s') DATA_STATE_FILE = Some (File (json_dumps env (current_state r)))"
    by (simp add: entry_def update_conv')
  have 3: "main env s = (if fetch_errors r = [] then Inr () else Inl (SystemExit 1), s')"
    using assms by (simp add: main_def)
  then have 4: "exit_code (fst (main env s)) = (if fetch_errors r = [] then 0 else 1)"
    by simp
  from c 2 3 4 show ?thesis by blast
qed

text \<open>The theorem at a run where every fetch succeeds and at one where a download fails.\<close>

theorem state_persisted_and_exit_code_witness:
  "exit_code (fst (main env0 sys0)) = 0 \<and> exit_code (fst (main env_500 sys0)) = 1
   \<and> entry (data_dir (snd (main env0 sys0))) DATA_STATE_FILE
       = Some (File (json_dumps env0 (current_state (projr (fst (main_body env0 sys0))))))"
proof -
  define r where "r = projr (fst (main_body env0 sys0))"
  define s' where "s' = snd (main_body env0 sys0)"
  define q where "q = projr (fst (main_body env_500 sys0))"
  define t' where "t' = snd (main_body env_500 sys0)"
  have "\<not> isl (fst (main_body env0 sys0))" by code_simp
  then have mb: "main_body env0 sys0 = (Inr r, s')"
    unfolding r_def s'_def by (metis prod.collapse sum.collapse(2))
  have "\<not> isl (fst (main_body env_500 sys0))" by code_simp
  then have mq: "main_body env_500 sys0 = (Inr q, t')"
    unfolding q_def t'_def by (metis prod.collapse sum.collapse(2))
  have fr: "fetch_errors r = []" unfolding r_def by code_simp
  have fq: "fetch_errors q \<noteq> []" unfolding q_def by code_simp
  from state_persisted_and_exit_code[OF mb] fr
  have a: "exit_code (fst (main env0 sys0)) = 0"
    and b: "entry (data_dir s') DATA_STATE_FILE = Some (File (json_dumps env0 (current_state r)))"
    and m: "main env0 sys0 = (Inr (), s')"
    by simp_all
  from state_persisted_and_exit_code[OF mq] fq
  have c: "exit_code (fst (main env_500 sys0)) = 1" by simp
  from a b c m show ?thesis unfolding r_def by simp
qed

text \<open>C4 as stated fails: a run whose count query is answered by \<^verbatim>\<open>[{}]\<close> is left by a
  \<^verbatim>\<open>KeyError\<close> that nothing catches. The process exits with status 1, and the state file is
  still the one of the previous run: no new state has been saved.\<close>

theorem aborted_run_saves_no_state:
  "fst (main env_nocount sys0) = Inl KeyError
   \<and> exit_code (fst (main env_nocount sys0)) = 1
   \<and> entry (data_dir (snd (main env_nocount sys0))) DATA_STATE_FILE = Some (File state_text)"
  by code_simp

text \<open>C5. In every run that has taken its backup, the backup directory is gone at the end
  exactly when the run has reached the end of \<^verbatim>\<open>main\<close> with no FetchError and no detected
  change. Otherwise (a fetch has failed, a change was detected, or the run was left by an
  exception) it is still there, with the entries that the dataset directory had before the
  run.\<close>

theorem backup_cleared_iff_clean_run:
  assumes "makedirs_data s = (Inr (), s1)"
    and "backup_data s1 = (Inr (), s2)"
    and "main env s = (r, s')"
  shows "(backup_dir s' = None \<longleftrightarrow>
           (\<exists>run. main_body env s = (Inr run, s') \<and> fetch_errors run = [] \<and> changes run = []))
    \<and> (backup_dir s' \<noteq> None \<longrightarrow>
         (\<exists>es. backup_dir s' = Some (Dir es) \<and> (\<forall>n. map_of es n = entry (data_dir s) n)))"
proof -
  from makedirs_data_ok[OF assms(1)] obtain es where
    d1: "data_dir s1 = Some (Dir es)" and e1: "\<forall>n. entry (data_dir s) n = map_of es n" by blast
  from backup_data_ok[OF assms(2) d1] have b2: "backup_dir s2 = Some (Dir es)" by simp
  obtain res t where mb: "main_body env s = (res, t)" by (cases "main_body env s")
  with assms(3) have t: "t = s'" by (auto simp: main_def split: sum.splits if_splits)
  show ?thesis
  proof (cases res)
    case (Inl e)
    from main_body_aborted_backup[OF assms(1,2) mb[unfolded Inl]] b2 t
    have "backup_dir s' = Some (Dir es)" by simp
    with mb Inl t e1 show ?thesis by auto
  next
    case (Inr run)
    from main_body_facts[OF mb[unfolded Inr]] obtain es' where
      e': "\<forall>n. entry (data_dir s) n = map_of es' n"
      and b: "backup_dir t = (if fetch_errors run = [] \<and> changes run = [] then None else Some (Dir es'))"
      by blast
    with mb Inr t show ?thesis by (auto split: if_splits)
  qed
qed

text \<open>The theorem at a first run in an empty dataset directory (no change: the backup is
  removed), at a run that detects a change and at a run left by an exception (the backup
  is kept).\<close>

theorem backup_cleared_iff_clean_run_witness:
  "backup_dir (snd (main env0 sys_fresh)) = None
   \<and> entry (backup_dir (snd (main env0 sys0))) ''DSMI-Service-Line-Materials-Estimates.xlsx''
       = Some (File ''dsmi-v1'')
   \<and> changes (projr (fst (main_body env0 sys0))) \<noteq> []
   \<and> backup_dir (snd (main env_nocount sys0)) \<noteq> None"
proof -
  have m1: "makedirs_data sys_fresh = (Inr (), sys_fresh)" by code_simp
  have b1: "backup_data sys_fresh = (Inr (), sys_fresh\<lparr>backup_dir := data_dir sys_fresh\<rparr>)"
    by code_simp
  have m2: "makedirs_data sys0 = (Inr (), sys0)" by code_simp
  have b2: "backup_data sys0 = (Inr (), sys0\<lparr>backup_dir := data_dir sys0\<rparr>)"
    by code_simp
  define q where "q = projr (fst (main_body env0 sys_fresh))"
  have "\<not> isl (fst (main_body env0 sys_fresh))" by code_simp
  then have mq: "main_body env0 sys_fresh = (Inr q, snd (main_body env0 sys_fresh))"
    unfolding q_def by (metis prod.collapse sum.collapse(2))
  have fq: "fetch_errors q = []" and cq: "changes q = []" unfolding q_def by code_simp+
  have sq: "snd (main env0 sys_fresh) = snd (main_body env0 sys_fresh)"
    by (rule main_snd)
  have pq: "main env0 sys_fresh = (fst (main env0 sys_fresh), snd (main_body env0 sys_fresh))"
    using sq by (metis prod.collapse)
  from backup_cleared_iff_clean_run[OF m1 b1 pq] mq fq cq
  have a: "backup_dir (snd (main env0 sys_fresh)) = None" unfolding sq by blast
  define r where "r = projr (fst (main_body env0 sys0))"
  have cr: "changes r \<noteq> []" unfolding r_def by code_simp
  have "\<not> isl (fst (main_body env0 sys0))" by code_simp
  then have mr: "main_body env0 sys0 = (Inr r, snd (main_body env0 sys0))"
    unfolding r_def by (metis prod.collapse sum.collapse(2))
  have sr: "snd (main env0 sys0) = snd (main_body env0 sys0)"
    by (rule main_snd)
  have pr: "main env0 sys0 = (fst (main env0 sys0), snd (main env0 sys0))" by simp
  have "\<not> (\<exists>run. main_body env0 sys0 = (Inr run, snd (main env0 sys0))
            \<and> fetch_errors run = [] \<and> changes run = [])"
  proof
    assume "\<exists>run. main_body env0 sys0 = (Inr run, snd (main env0 sys0))
            \<and> fetch_errors run = [] \<and> changes run = []"
    then obtain run where "main_body env0 sys0 = (Inr run, snd (main env0 sys0))"
      and "changes run = []" by blast
    with mr have "run = r" by (metis Pair_inject sum.inject(2))
    with \<open>changes run = []\<close> cr show False by simp
  qed
  with backup_cleared_iff_clean_run[OF m2 b2 pr]
  have "backup_dir (snd (main env0 sys0)) \<noteq> None" by blast
  with backup_cleared_iff_clean_run[OF m2 b2 pr] obtain es where
    "backup_dir (snd (main env0 sys0)) = Some (Dir es)"
    "\<forall>n. map_of es n = entry (data_dir sys0) n" by blast
  then have b: "entry (backup_dir (snd (main env0 sys0))) ''DSMI-Service-Line-Materials-Estimates.xlsx''
       = Some (File ''dsmi-v1'')"
    by (simp add: entry_def sys0_def)
  have ab: "isl (fst (main_body env_nocount sys0))" by code_simp
  have pn: "main env_nocount sys0 = (fst (main env_nocount sys0), snd (main env_nocount sys0))" by simp
  have "\<not> (\<exists>run. main_body env_nocount sys0 = (Inr run, snd (main env_nocount sys0)))"
    using ab by auto
  with backup_cleared_iff_clean_run[OF m2 b2 pn]
  have c: "backup_dir (snd (main env_nocount sys0)) \<noteq> None" by blast
  from a b c cr show ?thesis unfolding r_def by blast
qed

subsection \<open>SourceFetcher: the REST strategy\<close>



subsection \<open>SourceFetcher: the scrape strategy\<close>




subsection \<open>Orchestrator: errors of the fetchers\<close>




subsection \<open>ChangeDetector\<close>



end
